theory Spec2Isabelle
  imports
    Complex_Main
    "HOL-Library.AList"
    "HOL-Library.Char_ord"
    "HOL-Library.List_Lexorder"
begin

section \<open>Data model of the chore scheduler (src/script.js)\<close>

text \<open>
  The application keeps a single JSON document in \<^verbatim>\<open>localStorage\<close>:
  \<^verbatim>\<open>{ meta, chores: [{id, name}], people: [{id, name}], assignmentsByDate: { date: day } }\<close>
  with \<^verbatim>\<open>day = { availablePersonIds: [id], assignments: { choreId: personId }, confirmed }\<close>.
  Objects with string keys are association lists in key insertion order; ids, names and
  date keys are strings. Strings are compared as JavaScript compares them
  (lexicographically by code unit), which on \<^typ>\<open>string\<close> is the order of
  \<^theory_text>\<open>List_Lexorder\<close> over \<^theory_text>\<open>Char_ord\<close>.
\<close>

record entity =
  ident :: string
  name :: string

record day_record =
  availablePersonIds :: "string list"
  assignments :: "(string \<times> string) list"
  confirmed :: bool

record data =
  chores :: "entity list"
  people :: "entity list"
  assignmentsByDate :: "(string \<times> day_record) list"

text \<open>
  The world outside a handler: the stored document, the log of documents written by
  \<^verbatim>\<open>saveData\<close> (oldest first), the text of the \<^verbatim>\<open>#warning\<close> element, the
  messages shown with \<^verbatim>\<open>alert\<close>, and the number of \<^verbatim>\<open>Math.random()\<close> calls made.
\<close>

record world =
  storage :: data
  saved :: "data list"
  warning :: string
  alerts :: "string list"
  drawn :: nat

text \<open>
  \<^verbatim>\<open>loadData\<close> parses the stored document (an empty \<^verbatim>\<open>localStorage\<close> is the
  document without chores, people and days), \<^verbatim>\<open>saveData\<close> replaces it.
\<close>

definition loadData :: "world \<Rightarrow> data" where
  "loadData w = storage w"

definition saveData :: "data \<Rightarrow> world \<Rightarrow> world" where
  "saveData d w = w\<lparr>storage := d, saved := saved w @ [d]\<rparr>"

definition alert :: "string \<Rightarrow> world \<Rightarrow> world" where
  "alert msg w = w\<lparr>alerts := alerts w @ [msg]\<rparr>"

section \<open>Availability normalization\<close>

text \<open>
  \<^verbatim>\<open>Object.keys(data.assignmentsByDate).filter(d => d < beforeDate).sort().reverse()\<close>,
  used by \<^verbatim>\<open>getLastWorkday\<close> and by \<^verbatim>\<open>generateAssignments\<close>.
\<close>

definition datesBefore :: "data \<Rightarrow> string \<Rightarrow> string list" where
  "datesBefore d beforeDate =
     rev (sort (filter (\<lambda>x. x < beforeDate) (map fst (assignmentsByDate d))))"

definition getLastWorkday :: "data \<Rightarrow> string \<Rightarrow> day_record option" where
  "getLastWorkday d beforeDate =
     (case datesBefore d beforeDate of
        [] \<Rightarrow> None
      | x # _ \<Rightarrow> map_of (assignmentsByDate d) x)"

text \<open>
  The availability a day takes over from the most recent earlier record:
  \<^verbatim>\<open>lastDay && lastDay.availablePersonIds.length ? [...lastDay.availablePersonIds] : []\<close>.
\<close>

definition inherited :: "data \<Rightarrow> string \<Rightarrow> string list" where
  "inherited d date =
     (case getLastWorkday d date of
        None \<Rightarrow> []
      | Some lastDay \<Rightarrow>
          if availablePersonIds lastDay \<noteq> [] then availablePersonIds lastDay else [])"

text \<open>The record created for a missing date (lines 53 to 62).\<close>

definition createDay :: "data \<Rightarrow> string \<Rightarrow> day_record" where
  "createDay d date =
     \<lparr>availablePersonIds = inherited d date, assignments = [], confirmed = False\<rparr>"

text \<open>\<^verbatim>\<open>data.people.some(p => p.id === pid)\<close>: the id is that of a current person.\<close>

definition knownPerson :: "data \<Rightarrow> string \<Rightarrow> bool" where
  "knownPerson d pid = list_ex (\<lambda>p. ident p = pid) (people d)"

text \<open>
  The in-place repair of an existing record (lines 69 to 83). The field is a list in this
  model, so the \<^verbatim>\<open>Array.isArray\<close> guard never fires. An empty list is replaced by
  the inherited one when that is non-empty; then ids of deleted people are dropped.
\<close>

definition sanitizeDay :: "data \<Rightarrow> string \<Rightarrow> day_record \<Rightarrow> day_record" where
  "sanitizeDay d date day =
     (let a1 = (if availablePersonIds day = []
                then (if inherited d date \<noteq> [] then inherited d date else availablePersonIds day)
                else availablePersonIds day);
          a2 = filter (knownPerson d) a1
      in day\<lparr>availablePersonIds := a2\<rparr>)"

text \<open>
  \<^verbatim>\<open>normalizeAvailability(data, date)\<close> of src/script.js: it mutates the in-memory
  document and saves it on both paths. The result is the mutated document and the world
  after \<^verbatim>\<open>saveData\<close>.
\<close>

definition normalizeAvailability :: "data \<Rightarrow> string \<Rightarrow> world \<Rightarrow> data \<times> world" where
  "normalizeAvailability d date w =
     (case map_of (assignmentsByDate d) date of
        None \<Rightarrow>
          (let d' = d\<lparr>assignmentsByDate := assignmentsByDate d @ [(date, createDay d date)]\<rparr>
           in (d', saveData d' w))
      | Some day \<Rightarrow>
          (let d' = d\<lparr>assignmentsByDate :=
                       AList.update date (sanitizeDay d date day) (assignmentsByDate d)\<rparr>
           in (d', saveData d' w)))"

section \<open>The rule engine\<close>

text \<open>
  \<^verbatim>\<open>Object.values(data.assignmentsByDate[d]?.assignments || {}).includes(pid)\<close>: the
  person has some chore on that date.
\<close>

definition assignedOn :: "data \<Rightarrow> string \<Rightarrow> string \<Rightarrow> bool" where
  "assignedOn d date pid =
     (case map_of (assignmentsByDate d) date of
        None \<Rightarrow> False
      | Some r \<Rightarrow> pid \<in> set (map snd (assignments r)))"

text \<open>\<^verbatim>\<open>data.assignmentsByDate[d]?.assignments?.[chore.id] === pid\<close>.\<close>

definition hadChoreOn :: "data \<Rightarrow> string \<Rightarrow> string \<Rightarrow> string \<Rightarrow> bool" where
  "hadChoreOn d date cid pid =
     (case map_of (assignmentsByDate d) date of
        None \<Rightarrow> False
      | Some r \<Rightarrow> map_of (assignments r) cid = Some pid)"

text \<open>
  The consecutive-day filter keeps a person unless \<^verbatim>\<open>dates.slice(0, 2).every(...)\<close>
  holds for them; the cooldown filter keeps a person unless
  \<^verbatim>\<open>dates.slice(0, 5).some(...)\<close> holds.
\<close>

definition consecutiveBlocked :: "data \<Rightarrow> string list \<Rightarrow> string \<Rightarrow> bool" where
  "consecutiveBlocked d dates pid = list_all (\<lambda>x. assignedOn d x pid) (take 2 dates)"

definition cooldownBlocked :: "data \<Rightarrow> string list \<Rightarrow> string \<Rightarrow> string \<Rightarrow> bool" where
  "cooldownBlocked d dates cid pid = list_ex (\<lambda>x. hadChoreOn d x cid pid) (take 5 dates)"

text \<open>The candidate list of one Phase 1 iteration (lines 343 to 361).\<close>

definition strictCandidates ::
  "data \<Rightarrow> string list \<Rightarrow> string list \<Rightarrow> bool \<Rightarrow> string set \<Rightarrow> entity \<Rightarrow> string list" where
  "strictCandidates d dates available enforceSingleChore assignedToday chore =
     (let c0 = available;
          c1 = (if enforceSingleChore then filter (\<lambda>pid. pid \<notin> assignedToday) c0 else c0);
          c2 = filter (\<lambda>pid. \<not> consecutiveBlocked d dates pid) c1;
          c3 = filter (\<lambda>pid. \<not> cooldownBlocked d dates (ident chore) pid) c2
      in c3)"

text \<open>The candidate list of one Phase 2 iteration (lines 380 to 384).\<close>

definition relaxedCandidates :: "string list \<Rightarrow> bool \<Rightarrow> string set \<Rightarrow> string list" where
  "relaxedCandidates available enforceSingleChore assignedToday =
     (if enforceSingleChore then filter (\<lambda>pid. pid \<notin> assignedToday) available else available)"

text \<open>
  \<^verbatim>\<open>Math.floor(Math.random() * candidates.length)\<close>. The random source is the sequence
  \<open>rnd\<close> of the values \<^verbatim>\<open>Math.random()\<close> returns, each in \<open>[0, 1)\<close>; the
  \<open>k\<close>-th call returns \<open>rnd k\<close>.
\<close>

definition unitDraws :: "(nat \<Rightarrow> real) \<Rightarrow> bool" where
  "unitDraws rnd = (\<forall>k. 0 \<le> rnd k \<and> rnd k < 1)"

definition randomIndex :: "real \<Rightarrow> nat \<Rightarrow> nat" where
  "randomIndex r n = nat \<lfloor>r * real n\<rfloor>"

text \<open>
  The Phase 1 loop over the chores, from the state \<open>(newAssignments, assignedToday)\<close>
  and the draw counter. It returns the two variables, the \<^verbatim>\<open>success\<close> flag and the
  counter; on an empty candidate list it stops with \<^verbatim>\<open>success = false\<close> and the picks
  made so far still in \<^verbatim>\<open>newAssignments\<close>.
\<close>

fun phase1 ::
  "(nat \<Rightarrow> real) \<Rightarrow> data \<Rightarrow> string list \<Rightarrow> string list \<Rightarrow> bool \<Rightarrow> entity list \<Rightarrow>
   (string \<times> string) list \<Rightarrow> string set \<Rightarrow> nat \<Rightarrow>
   (string \<times> string) list \<times> string set \<times> bool \<times> nat" where
  "phase1 rnd d dates available esc [] newAssignments assignedToday k =
     (newAssignments, assignedToday, True, k)"
| "phase1 rnd d dates available esc (chore # rest) newAssignments assignedToday k =
     (let candidates = strictCandidates d dates available esc assignedToday chore in
      if candidates = [] then (newAssignments, assignedToday, False, k)
      else
        (let pick = candidates ! randomIndex (rnd k) (length candidates) in
         phase1 rnd d dates available esc rest
           (AList.update (ident chore) pick newAssignments) (insert pick assignedToday) (Suc k)))"

text \<open>
  The Phase 2 loop. On an empty candidate list the handler returns at once; the loop
  reports it with the flag \<open>False\<close> and the partial map built so far.
\<close>

fun phase2 ::
  "(nat \<Rightarrow> real) \<Rightarrow> string list \<Rightarrow> bool \<Rightarrow> entity list \<Rightarrow>
   (string \<times> string) list \<Rightarrow> string set \<Rightarrow> nat \<Rightarrow>
   (string \<times> string) list \<times> string set \<times> bool \<times> nat" where
  "phase2 rnd available esc [] newAssignments assignedToday k =
     (newAssignments, assignedToday, True, k)"
| "phase2 rnd available esc (chore # rest) newAssignments assignedToday k =
     (let candidates = relaxedCandidates available esc assignedToday in
      if candidates = [] then (newAssignments, assignedToday, False, k)
      else
        (let pick = candidates ! randomIndex (rnd k) (length candidates) in
         phase2 rnd available esc rest
           (AList.update (ident chore) pick newAssignments) (insert pick assignedToday) (Suc k)))"

text \<open>
  \<^verbatim>\<open>day.assignments = newAssignments; saveData(data)\<close>: today's map is replaced as a
  whole in the document, and the document is saved.
\<close>

definition commit :: "data \<Rightarrow> string \<Rightarrow> day_record \<Rightarrow> (string \<times> string) list \<Rightarrow> world \<Rightarrow> world" where
  "commit d today day newAssignments w =
     saveData (d\<lparr>assignmentsByDate :=
                  AList.update today (day\<lparr>assignments := newAssignments\<rparr>) (assignmentsByDate d)\<rparr>) w"

definition msgConfirmed :: string where
  "msgConfirmed = ''Assignments are already confirmed for today.''"

definition msgNoPeople :: string where
  "msgNoPeople =
     ''No available people selected. Please select availability before generating assignments.''"

definition msgNotEnough :: string where
  "msgNotEnough =
     ''Not enough available people for all chores. Please adjust availability or assign manually.''"

definition msgImpossible :: string where
  "msgImpossible =
     ''Assignment impossible without violating daily limits. Manual review required.''"

definition msgRelaxed :: string where
  "msgRelaxed = ''Fairness rules were relaxed for some chores. Manual review recommended.''"

text \<open>
  Everything after the validation blocks (lines 327 to 405): history dates, Phase 1,
  Phase 2 when Phase 1 failed, and the commit. \<open>day\<close> is today's record after
  normalization and \<open>d\<close> the normalized document.
\<close>

definition allocate ::
  "(nat \<Rightarrow> real) \<Rightarrow> string \<Rightarrow> data \<Rightarrow> day_record \<Rightarrow> world \<Rightarrow> world" where
  "allocate rnd today d day w =
     (let available = availablePersonIds day;
          dates = datesBefore d today;
          enforceSingleChore = (length (chores d) \<le> length available)
      in case phase1 rnd d dates available enforceSingleChore (chores d) [] {} (drawn w) of
           (newAssignments, assignedToday, success, k) \<Rightarrow>
             if success then commit d today day newAssignments (w\<lparr>drawn := k\<rparr>)
             else
               (case phase2 rnd available enforceSingleChore (chores d) [] {} k of
                  (newAssignments2, assignedToday2, success2, k2) \<Rightarrow>
                    if \<not> success2 then w\<lparr>drawn := k2, warning := msgImpossible\<rparr>
                    else commit d today day newAssignments2
                           (w\<lparr>drawn := k2, warning := msgRelaxed\<rparr>)))"

text \<open>
  \<^verbatim>\<open>generateAssignments()\<close> of src/script.js, with the global \<^verbatim>\<open>today\<close> as a
  parameter. \<open>day0\<close> is read before normalization (line 297); when it is a record,
  normalization repairs that same object in place, so afterwards the variable holds
  \<open>sanitizeDay\<close> of it. When it is missing, the handler returns after normalization
  (line 300).
\<close>

definition generateAssignments :: "(nat \<Rightarrow> real) \<Rightarrow> string \<Rightarrow> world \<Rightarrow> world" where
  "generateAssignments rnd today w =
     (let d0 = loadData w;
          day0 = map_of (assignmentsByDate d0) today
      in case normalizeAvailability d0 today w of
           (d, w1) \<Rightarrow>
             (case day0 of
                None \<Rightarrow> w1
              | Some r \<Rightarrow>
                  (let day = sanitizeDay d0 today r in
                   if confirmed day then alert msgConfirmed w1
                   else
                     (let w2 = w1\<lparr>warning := []\<rparr>;
                          available = availablePersonIds day
                      in if available = [] then w2\<lparr>warning := msgNoPeople\<rparr>
                         else if length available < length (chores d) then w2\<lparr>warning := msgNotEnough\<rparr>
                         else allocate rnd today d day w2))))"

section \<open>The handler of src/unnamed/part_001\<close>

text \<open>
  The second copy of the application has the same two loops and the same commit. Its
  \<^verbatim>\<open>normalizeAvailability\<close> repairs or creates the record in the same way, does not
  save, and returns the record; \<^verbatim>\<open>generateAssignments\<close> uses the returned record, saves
  the document itself, and reports a confirmed day with \<^verbatim>\<open>showError\<close> instead of an
  alert.
\<close>

definition showError :: "string \<Rightarrow> world \<Rightarrow> world" where
  "showError message w = w\<lparr>warning := message\<rparr>"

definition clearError :: "world \<Rightarrow> world" where
  "clearError w = w\<lparr>warning := []\<rparr>"

definition normalizeAvailability_part_001 :: "data \<Rightarrow> string \<Rightarrow> data \<times> day_record" where
  "normalizeAvailability_part_001 d date =
     (case map_of (assignmentsByDate d) date of
        None \<Rightarrow>
          (let day = createDay d date
           in (d\<lparr>assignmentsByDate := assignmentsByDate d @ [(date, day)]\<rparr>, day))
      | Some day0 \<Rightarrow>
          (let day = sanitizeDay d date day0
           in (d\<lparr>assignmentsByDate := AList.update date day (assignmentsByDate d)\<rparr>, day)))"

definition generateAssignments_part_001 :: "(nat \<Rightarrow> real) \<Rightarrow> string \<Rightarrow> world \<Rightarrow> world" where
  "generateAssignments_part_001 rnd today w =
     (case normalizeAvailability_part_001 (loadData w) today of
        (d, day) \<Rightarrow>
          (let w1 = saveData d w in
           if confirmed day then showError msgConfirmed w1
           else
             (let w2 = clearError w1;
                  available = availablePersonIds day
              in if available = [] then showError msgNoPeople w2
                 else if length available < length (chores d) then showError msgNotEnough w2
                 else allocate rnd today d day w2)))"

section \<open>Retention sweep\<close>

text \<open>
  Instants are milliseconds since the epoch, as \<^verbatim>\<open>Date\<close> values are. The day number
  of the first of January of a year and the lengths of the months are those of the
  ECMAScript date algorithms.
\<close>

definition msPerDay :: int where
  "msPerDay = 86400000"

definition dayFromYear :: "int \<Rightarrow> int" where
  "dayFromYear y =
     365 * (y - 1970) + (y - 1969) div 4 - (y - 1901) div 100 + (y - 1601) div 400"

definition inLeapYear :: "int \<Rightarrow> bool" where
  "inLeapYear y =
     (if y mod 4 \<noteq> 0 then False else if y mod 100 \<noteq> 0 then True else y mod 400 = 0)"

definition daysInMonth :: "int \<Rightarrow> int \<Rightarrow> int" where
  "daysInMonth y m =
     (if m = 2 then (if inLeapYear y then 29 else 28)
      else if m = 4 \<or> m = 6 \<or> m = 9 \<or> m = 11 then 30
      else 31)"

definition daysBeforeMonth :: "int \<Rightarrow> int \<Rightarrow> int" where
  "daysBeforeMonth y m =
     [0, 31, 59, 90, 120, 151, 181, 212, 243, 273, 304, 334] ! nat (m - 1)
     + (if 2 < m \<and> inLeapYear y then 1 else 0)"

text \<open>
  \<^verbatim>\<open>new Date(s).getTime()\<close> for a date-only string \<^verbatim>\<open>YYYY-MM-DD\<close>, the form of the
  keys \<^verbatim>\<open>getLocalDateString\<close> writes: midnight UTC of that day. \<open>None\<close> stands for
  \<^verbatim>\<open>NaN\<close> (an invalid date). Only this form is read here: every other string, and
  every day that is not in the calendar, is taken as invalid.
\<close>

definition digitValue :: "char \<Rightarrow> int option" where
  "digitValue c =
     (if CHR ''0'' \<le> c \<and> c \<le> CHR ''9'' then Some (of_char c - 48) else None)"

fun digitsValue :: "int \<Rightarrow> string \<Rightarrow> int option" where
  "digitsValue acc [] = Some acc"
| "digitsValue acc (c # cs) =
     (case digitValue c of None \<Rightarrow> None | Some v \<Rightarrow> digitsValue (10 * acc + v) cs)"

definition isoDateValue :: "string \<Rightarrow> int option" where
  "isoDateValue s =
     (if length s = 10 \<and> s ! 4 = CHR ''-'' \<and> s ! 7 = CHR ''-'' then
        (case (digitsValue 0 (take 4 s), digitsValue 0 (take 2 (drop 5 s)),
               digitsValue 0 (drop 8 s)) of
           (Some y, Some m, Some dd) \<Rightarrow>
             if 1 \<le> m \<and> m \<le> 12 \<and> 1 \<le> dd \<and> dd \<le> daysInMonth y m
             then Some ((dayFromYear y + daysBeforeMonth y m + dd - 1) * msPerDay)
             else None
         | _ \<Rightarrow> None)
      else None)"

text \<open>
  \<^verbatim>\<open>new Date(date) < cutoff\<close>: a comparison of instants, false when the date is
  invalid. The parser of the runtime is the parameter \<open>dateValue\<close>.
\<close>

definition isOld :: "(string \<Rightarrow> int option) \<Rightarrow> int \<Rightarrow> string \<Rightarrow> bool" where
  "isOld dateValue cutoff date =
     (case dateValue date of None \<Rightarrow> False | Some t \<Rightarrow> t < cutoff)"

text \<open>
  The local time zone of the runtime: the offset of local time from UTC, in milliseconds,
  at a UTC instant, and the offset that the runtime takes for a local time value (the two
  differ around a change of offset). \<^verbatim>\<open>LocalTime(t)\<close> and \<^verbatim>\<open>UTC(t)\<close> are those of
  ECMAScript.
\<close>

record zone =
  offsetAtInstant :: "int \<Rightarrow> int"
  offsetAtLocal :: "int \<Rightarrow> int"

definition localTime :: "zone \<Rightarrow> int \<Rightarrow> int" where
  "localTime z t = t + offsetAtInstant z t"

definition utcOfLocal :: "zone \<Rightarrow> int \<Rightarrow> int" where
  "utcOfLocal z t = t - offsetAtLocal z t"

text \<open>
  \<^verbatim>\<open>cutoff.setDate(cutoff.getDate() - days)\<close> on a \<^verbatim>\<open>Date\<close> with time value \<open>t\<close>:
  the local time is split into its day number and its time within the day, the day of the
  month is lowered by \<open>days\<close> (which lowers the day number by as much, whatever the
  month), the two are put together again and the local time is taken back to UTC.
\<close>

definition setDateBack :: "zone \<Rightarrow> int \<Rightarrow> int \<Rightarrow> int" where
  "setDateBack z days t =
     (let lt = localTime z t;
          newDate = (lt div msPerDay - days) * msPerDay + lt mod msPerDay
      in utcOfLocal z newDate)"

text \<open>
  \<^verbatim>\<open>cleanupOldData()\<close> of src/script.js with the clock and the time zone as parameters:
  \<open>now\<close> is the value of \<^verbatim>\<open>new Date()\<close>. The loop deletes, key by key, every record
  whose date is before the cutoff; then the document is saved and an alert is shown. The
  loop of src/unnamed/part_001 is the same, with \<^verbatim>\<open>HISTORY_RETENTION_DAYS\<close> for 30; it
  counts the deletions and reports them in the warning element.
\<close>

definition cleanupOldData ::
  "(string \<Rightarrow> int option) \<Rightarrow> zone \<Rightarrow> int \<Rightarrow> world \<Rightarrow> world" where
  "cleanupOldData dateValue z now w =
     (let d = loadData w;
          cutoff = setDateBack z 30 now;
          kept = fold (\<lambda>date al. if isOld dateValue cutoff date then AList.delete date al else al)
                   (map fst (assignmentsByDate d)) (assignmentsByDate d)
      in alert ''Old assignment data deleted.'' (saveData (d\<lparr>assignmentsByDate := kept\<rparr>) w))"

section \<open>Concrete stores\<close>

text \<open>A random source that always returns \<open>0\<close>, so every pick is the first candidate.\<close>

definition zeroDraws :: "nat \<Rightarrow> real" where
  "zeroDraws k = 0"

definition Dishes :: entity where
  "Dishes = \<lparr>ident = ''c1'', name = ''Dishes''\<rparr>"

definition Trash :: entity where
  "Trash = \<lparr>ident = ''c2'', name = ''Trash''\<rparr>"

definition personA :: entity where
  "personA = \<lparr>ident = ''A'', name = ''A''\<rparr>"

definition personB :: entity where
  "personB = \<lparr>ident = ''B'', name = ''B''\<rparr>"

definition personC :: entity where
  "personC = \<lparr>ident = ''C'', name = ''C''\<rparr>"

text \<open>A freshly loaded page: nothing saved yet, no warning, no alert, no draw.\<close>

definition emptyWorld :: "data \<Rightarrow> world" where
  "emptyWorld d = \<lparr>storage = d, saved = [], warning = [], alerts = [], drawn = 0\<rparr>"

text \<open>A record for the day before, none for \<open>2024-03-10\<close>.\<close>

definition storeNoToday :: data where
  "storeNoToday =
     \<lparr>chores = [Dishes, Trash], people = [personA, personB, personC],
      assignmentsByDate =
        [(''2024-03-09'',
          \<lparr>availablePersonIds = [''A'', ''B''], assignments = [], confirmed = False\<rparr>)]\<rparr>"

text \<open>
  The data model's invariant on availability: every id in every record's
  \<^verbatim>\<open>availablePersonIds\<close> is the id of a current person (\<^verbatim>\<open>deletePerson\<close> removes
  a deleted id from every record).
\<close>

definition availabilityRefsExist :: "data \<Rightarrow> bool" where
  "availabilityRefsExist d =
     list_all (\<lambda>kr. list_all (knownPerson d) (availablePersonIds (snd kr))) (assignmentsByDate d)"

text \<open>
  Three recorded days, the earliest with one available person and the two later ones with
  none.
\<close>

definition storeGap :: data where
  "storeGap =
     \<lparr>chores = [Dishes], people = [personA],
      assignmentsByDate =
        [(''2024-03-08'', \<lparr>availablePersonIds = [''A''], assignments = [], confirmed = False\<rparr>),
         (''2024-03-09'', \<lparr>availablePersonIds = [], assignments = [], confirmed = False\<rparr>),
         (''2024-03-10'', \<lparr>availablePersonIds = [], assignments = [], confirmed = False\<rparr>)]\<rparr>"

definition storeInherit :: data where
  "storeInherit =
     \<lparr>chores = [Dishes], people = [personA, personB, personC],
      assignmentsByDate =
        [(''2024-03-08'', \<lparr>availablePersonIds = [''C''], assignments = [], confirmed = False\<rparr>),
         (''2024-03-09'', \<lparr>availablePersonIds = [''A'', ''B''], assignments = [], confirmed = False\<rparr>),
         (''2024-03-10'', \<lparr>availablePersonIds = [], assignments = [], confirmed = False\<rparr>)]\<rparr>"

definition storeDangling :: data where
  "storeDangling =
     \<lparr>chores = [Dishes], people = [personA],
      assignmentsByDate =
        [(''2024-03-09'', \<lparr>availablePersonIds = [''A''], assignments = [], confirmed = False\<rparr>),
         (''2024-03-10'', \<lparr>availablePersonIds = [''X''], assignments = [], confirmed = False\<rparr>)]\<rparr>"

text \<open>
  The end-to-end scenario: two chores, three people, all three available today, today's
  record not confirmed, and no record for any earlier date.
\<close>

definition storeFirstDay :: data where
  "storeFirstDay =
     \<lparr>chores = [Dishes, Trash], people = [personA, personB, personC],
      assignmentsByDate =
        [(''2024-03-10'',
          \<lparr>availablePersonIds = [''A'', ''B'', ''C''], assignments = [], confirmed = False\<rparr>)]\<rparr>"

text \<open>
  A stored document whose availability list for today holds the same id twice (the
  application itself never writes such a list: \<^verbatim>\<open>toggleAvailability\<close> adds an id only
  when it is not yet there).
\<close>

definition storeDup :: data where
  "storeDup =
     \<lparr>chores = [Dishes, Trash], people = [personA],
      assignmentsByDate =
        [(''2024-03-10'',
          \<lparr>availablePersonIds = [''A'', ''A''], assignments = [], confirmed = False\<rparr>)]\<rparr>"

text \<open>A random source whose second value is \<open>1/2\<close> and whose other values are \<open>0\<close>.\<close>

definition altDraws :: "nat \<Rightarrow> real" where
  "altDraws k = (if k = 1 then 1 / 2 else 0)"

text \<open>
  Two earlier days on which the second chore went to \<open>A\<close> and then to \<open>B\<close>: in
  Phase 1 both are in cooldown for it.
\<close>

definition storeAbort :: data where
  "storeAbort =
     \<lparr>chores = [Dishes, Trash], people = [personA, personB],
      assignmentsByDate =
        [(''2024-03-08'',
          \<lparr>availablePersonIds = [''A'', ''B''], assignments = [(''c2'', ''A'')], confirmed = True\<rparr>),
         (''2024-03-09'',
          \<lparr>availablePersonIds = [''A'', ''B''], assignments = [(''c2'', ''B'')], confirmed = True\<rparr>),
         (''2024-03-10'',
          \<lparr>availablePersonIds = [''A'', ''B''], assignments = [], confirmed = False\<rparr>)]\<rparr>"

text \<open>Today's record is confirmed and holds an assignment.\<close>

definition storeConfirmed :: data where
  "storeConfirmed =
     \<lparr>chores = [Dishes], people = [personA],
      assignmentsByDate =
        [(''2024-03-10'',
          \<lparr>availablePersonIds = [''A''], assignments = [(''c1'', ''A'')], confirmed = True\<rparr>)]\<rparr>"

text \<open>
  Nobody is available today, one person was available the day before, and there are two
  chores.
\<close>

definition storeNobodyToday :: data where
  "storeNobodyToday =
     \<lparr>chores = [Dishes, Trash], people = [personA],
      assignmentsByDate =
        [(''2024-03-09'', \<lparr>availablePersonIds = [''A''], assignments = [], confirmed = False\<rparr>),
         (''2024-03-10'', \<lparr>availablePersonIds = [], assignments = [], confirmed = False\<rparr>)]\<rparr>"

text \<open>
  Two earlier days: \<open>C\<close> had the second chore on both, \<open>A\<close> had some other chore
  on the first only.
\<close>

definition storeHist :: data where
  "storeHist =
     \<lparr>chores = [Dishes, Trash], people = [personA, personB, personC],
      assignmentsByDate =
        [(''2024-03-08'',
          \<lparr>availablePersonIds = [''A'', ''B'', ''C''],
            assignments = [(''c2'', ''C''), (''c3'', ''A'')], confirmed = True\<rparr>),
         (''2024-03-09'',
          \<lparr>availablePersonIds = [''A'', ''B'', ''C''],
            assignments = [(''c2'', ''C'')], confirmed = True\<rparr>),
         (''2024-03-10'',
          \<lparr>availablePersonIds = [''A'', ''B'', ''C''], assignments = [], confirmed = False\<rparr>)]\<rparr>"




text \<open>
  A zone one hour ahead of UTC until 2024-03-31 01:00 UTC and two hours ahead from then
  on (local clocks go from 02:00 to 03:00).
\<close>

definition springZone :: zone where
  "springZone =
     \<lparr>offsetAtInstant = (\<lambda>t. if t < 1711846800000 then 3600000 else 7200000),
      offsetAtLocal = (\<lambda>t. if t < 1711854000000 then 3600000 else 7200000)\<rparr>"

text \<open>2024-03-31 23:30 UTC, which is 01:30 on the first of April in that zone.\<close>

definition lateMarch31 :: int where
  "lateMarch31 = 1711927800000"

text \<open>Records for the first three days of March 2024.\<close>

definition storeMarch :: data where
  "storeMarch =
     \<lparr>chores = [Dishes], people = [personA],
      assignmentsByDate =
        [(''2024-03-01'', \<lparr>availablePersonIds = [''A''], assignments = [], confirmed = True\<rparr>),
         (''2024-03-02'', \<lparr>availablePersonIds = [''A''], assignments = [], confirmed = True\<rparr>),
         (''2024-03-03'', \<lparr>availablePersonIds = [''A''], assignments = [], confirmed = True\<rparr>)]\<rparr>"

text \<open>
  One earlier day, on which \<open>A\<close> had the second chore; everybody is available today.
\<close>

definition storeOneDay :: data where
  "storeOneDay =
     \<lparr>chores = [Dishes, Trash], people = [personA, personB, personC],
      assignmentsByDate =
        [(''2024-03-09'',
          \<lparr>availablePersonIds = [''A'', ''B'', ''C''],
            assignments = [(''c2'', ''A'')], confirmed = True\<rparr>),
         (''2024-03-10'',
          \<lparr>availablePersonIds = [''A'', ''B'', ''C''], assignments = [], confirmed = False\<rparr>)]\<rparr>"

text \<open>One chore, one person, and no record for any day.\<close>

definition storeNoDays :: data where
  "storeNoDays = \<lparr>chores = [Dishes], people = [personA], assignmentsByDate = []\<rparr>"

section \<open>Facts about the history and normalization\<close>

lemma rev_sort_head:
  fixes xs :: "'a::linorder list"
  assumes "rev (sort xs) = x # rest"
  shows "x \<in> set xs \<and> (\<forall>y\<in>set xs. y \<le> x)"
proof -
  have s: "sort xs = rev rest @ [x]"
    using assms by (metis rev.simps(2) rev_rev_ident)
  have "sorted (rev rest @ [x])"
    using sorted_sort [of xs] s by simp
  then have le: "\<forall>y\<in>set (rev rest). y \<le> x"
    by (simp add: sorted_append)
  have "set xs = set (rev rest @ [x])"
    using s by (metis set_sort)
  then show ?thesis using le by auto
qed

lemma datesBefore_set:
  "set (datesBefore d t) = {x \<in> set (map fst (assignmentsByDate d)). x < t}"
  by (auto simp: datesBefore_def)

lemma datesBefore_head:
  assumes "datesBefore d t = x # rest"
  shows "x \<in> set (map fst (assignmentsByDate d)) \<and> x < t
         \<and> (\<forall>y\<in>set (map fst (assignmentsByDate d)). y < t \<longrightarrow> y \<le> x)"
  using rev_sort_head [OF assms [unfolded datesBefore_def]] by auto

lemma datesBefore_Nil:
  "datesBefore d t = [] \<longleftrightarrow> \<not> (\<exists>y\<in>set (map fst (assignmentsByDate d)). y < t)"
proof -
  have "datesBefore d t = [] \<longleftrightarrow> set (datesBefore d t) = {}" by simp
  then show ?thesis unfolding datesBefore_set by auto
qed

lemma getLastWorkday_Some:
  assumes "getLastWorkday d t = Some l"
  shows "\<exists>x. x < t \<and> map_of (assignmentsByDate d) x = Some l
           \<and> (\<forall>y\<in>set (map fst (assignmentsByDate d)). y < t \<longrightarrow> y \<le> x)"
proof (cases "datesBefore d t")
  case Nil
  then show ?thesis using assms by (simp add: getLastWorkday_def)
next
  case (Cons x rest)
  then have "map_of (assignmentsByDate d) x = Some l"
    using assms by (simp add: getLastWorkday_def)
  then show ?thesis using datesBefore_head [OF Cons] by blast
qed

lemma getLastWorkday_None:
  "getLastWorkday d t = None \<longleftrightarrow> \<not> (\<exists>y\<in>set (map fst (assignmentsByDate d)). y < t)"
proof (cases "datesBefore d t")
  case Nil
  then show ?thesis using datesBefore_Nil [of d t] by (simp add: getLastWorkday_def)
next
  case (Cons x rest)
  from datesBefore_head [OF Cons] have x: "x \<in> set (map fst (assignmentsByDate d))" "x < t"
    by auto
  then obtain v where "map_of (assignmentsByDate d) x = Some v"
    by (metis (no_types, lifting) image_iff list.set_map map_of_eq_None_iff not_Some_eq)
  then show ?thesis using Cons x by (auto simp: getLastWorkday_def)
qed

text \<open>A document that differs only in the entry of \<open>t\<close> has the same earlier history.\<close>

lemma getLastWorkday_cong:
  assumes k: "filter (\<lambda>x. x < t) (map fst (assignmentsByDate d')) =
              filter (\<lambda>x. x < t) (map fst (assignmentsByDate d))"
    and m: "\<And>x. x \<noteq> t \<Longrightarrow> map_of (assignmentsByDate d') x = map_of (assignmentsByDate d) x"
  shows "getLastWorkday d' t = getLastWorkday d t"
proof -
  have e: "datesBefore d' t = datesBefore d t"
    by (simp add: datesBefore_def k)
  show ?thesis
  proof (cases "datesBefore d t")
    case Nil
    then show ?thesis using e by (simp add: getLastWorkday_def)
  next
    case (Cons x rest)
    from datesBefore_head [OF Cons] have "x \<noteq> t" by auto
    then show ?thesis using e Cons m by (simp add: getLastWorkday_def)
  qed
qed

lemma getLastWorkday_update:
  "getLastWorkday (d\<lparr>assignmentsByDate := AList.update t r (assignmentsByDate d)\<rparr>) t =
   getLastWorkday d t"
  by (rule getLastWorkday_cong) (simp_all add: update_keys update_conv')

lemma getLastWorkday_snoc:
  "getLastWorkday (d\<lparr>assignmentsByDate := assignmentsByDate d @ [(t, r)]\<rparr>) t =
   getLastWorkday d t"
  by (rule getLastWorkday_cong) (simp_all add: map_add_def split: option.splits)

lemma inherited_update:
  "inherited (d\<lparr>assignmentsByDate := AList.update t r (assignmentsByDate d)\<rparr>) t = inherited d t"
  by (simp add: inherited_def getLastWorkday_update)

lemma inherited_snoc:
  "inherited (d\<lparr>assignmentsByDate := assignmentsByDate d @ [(t, r)]\<rparr>) t = inherited d t"
  by (simp add: inherited_def getLastWorkday_snoc)

lemma inherited_eq:
  "inherited d t = (case getLastWorkday d t of None \<Rightarrow> [] | Some l \<Rightarrow> availablePersonIds l)"
  by (simp add: inherited_def split: option.splits)

lemma refs_lookup:
  assumes "availabilityRefsExist d" "map_of (assignmentsByDate d) x = Some r"
  shows "filter (knownPerson d) (availablePersonIds r) = availablePersonIds r"
proof -
  have "(x, r) \<in> set (assignmentsByDate d)" using assms(2) by (rule map_of_SomeD)
  then have "list_all (knownPerson d) (availablePersonIds r)"
    using assms(1) by (auto simp: availabilityRefsExist_def list_all_iff)
  then show ?thesis by (simp add: list_all_iff)
qed

lemma refs_inherited:
  assumes "availabilityRefsExist d"
  shows "filter (knownPerson d) (inherited d t) = inherited d t"
proof (cases "getLastWorkday d t")
  case None
  then show ?thesis by (simp add: inherited_eq)
next
  case (Some l)
  then obtain x where "map_of (assignmentsByDate d) x = Some l"
    using getLastWorkday_Some by blast
  then show ?thesis using refs_lookup [OF assms] Some by (simp add: inherited_eq)
qed

lemma knownPerson_abd [simp]:
  "knownPerson (d\<lparr>assignmentsByDate := al\<rparr>) = knownPerson d"
  by (simp add: knownPerson_def fun_eq_iff)


lemmas fixture_defs = Dishes_def Trash_def personA_def personB_def personC_def emptyWorld_def
lemmas normalize_defs = normalizeAvailability_def sanitizeDay_def createDay_def inherited_def
  getLastWorkday_def datesBefore_def knownPerson_def saveData_def Let_def

lemma normalize_existing:
  assumes "map_of (assignmentsByDate d) date = Some day"
  shows "fst (normalizeAvailability d date w) =
           d\<lparr>assignmentsByDate :=
               AList.update date (sanitizeDay d date day) (assignmentsByDate d)\<rparr>"
    and "snd (normalizeAvailability d date w) = saveData (fst (normalizeAvailability d date w)) w"
    and "map_of (assignmentsByDate (fst (normalizeAvailability d date w))) date =
           Some (sanitizeDay d date day)"
  using assms by (simp_all add: normalizeAvailability_def Let_def update_conv')

lemma normalize_missing:
  assumes "map_of (assignmentsByDate d) date = None"
  shows "fst (normalizeAvailability d date w) =
           d\<lparr>assignmentsByDate := assignmentsByDate d @ [(date, createDay d date)]\<rparr>"
    and "snd (normalizeAvailability d date w) = saveData (fst (normalizeAvailability d date w)) w"
    and "map_of (assignmentsByDate (fst (normalizeAvailability d date w))) date =
           Some (createDay d date)"
  using assms by (simp_all add: normalizeAvailability_def Let_def map_add_def)

lemma sanitizeDay_refs:
  assumes "availabilityRefsExist d" "map_of (assignmentsByDate d) date = Some day"
  shows "sanitizeDay d date day =
           day\<lparr>availablePersonIds :=
                 (if availablePersonIds day = [] then inherited d date
                  else availablePersonIds day)\<rparr>"
  using refs_lookup [OF assms] refs_inherited [OF assms(1), of date]
  by (simp add: sanitizeDay_def Let_def)

section \<open>Facts about the two phases and the handler\<close>

text \<open>
  For a value of \<^verbatim>\<open>Math.random()\<close>, which lies in \<open>[0, 1)\<close>, the index is within
  the candidate list, so the pick is one of the candidates.
\<close>

lemma randomIndex_less:
  assumes "0 \<le> r" "r < 1" "0 < n"
  shows "randomIndex r n < n"
proof -
  have "r * real n < real n"
    using assms by simp
  then have "\<lfloor>r * real n\<rfloor> < int n"
    by (simp add: floor_less_iff)
  moreover have "0 \<le> \<lfloor>r * real n\<rfloor>"
    using assms by simp
  ultimately show ?thesis
    unfolding randomIndex_def by linarith
qed

lemma pick_in_candidates:
  assumes "unitDraws rnd" "candidates \<noteq> []"
  shows "candidates ! randomIndex (rnd k) (length candidates) \<in> set candidates"
  using assms randomIndex_less [of "rnd k" "length candidates"]
  by (simp add: unitDraws_def)

lemma unitDraws_fixtures:
  "unitDraws zeroDraws" "unitDraws altDraws"
  by (simp_all add: unitDraws_def zeroDraws_def altDraws_def)

lemma relaxed_set:
  "set (relaxedCandidates available True tk) = set available - tk"
  by (auto simp: relaxedCandidates_def)

lemma card_Diff_insert_ge:
  assumes "finite A"
  shows "card (A - B) \<le> Suc (card (A - insert p B))"
proof -
  have "A - B \<subseteq> insert p (A - insert p B)" by auto
  then have "card (A - B) \<le> card (insert p (A - insert p B))"
    using assms by (intro card_mono) auto
  also have "\<dots> \<le> Suc (card (A - insert p B))"
    using assms by (simp add: card_insert_if)
  finally show ?thesis .
qed

lemma phase2_completes:
  assumes "length chs \<le> card (set available - tk)"
  shows "\<exists>m tk'. phase2 rnd available True chs na tk k = (m, tk', True, k + length chs)
           \<and> fst ` set m = fst ` set na \<union> ident ` set chs"
  using assms
proof (induction chs arbitrary: na tk k)
  case Nil
  then show ?case by simp
next
  case (Cons c rest)
  let ?cands = "relaxedCandidates available True tk"
  let ?pick = "?cands ! randomIndex (rnd k) (length ?cands)"
  have "0 < card (set available - tk)" using Cons.prems by simp
  then have ne: "?cands \<noteq> []"
    using relaxed_set [of available tk] by (metis card.empty less_numeral_extra(3) set_empty)
  have "length rest \<le> card (set available - insert ?pick tk)"
    using Cons.prems card_Diff_insert_ge [of "set available" tk ?pick] by simp
  from Cons.IH [OF this, of "AList.update (ident c) ?pick na" "Suc k"]
  obtain m tk' where
    r: "phase2 rnd available True rest (AList.update (ident c) ?pick na) (insert ?pick tk) (Suc k) =
          (m, tk', True, Suc k + length rest)"
    and ks: "fst ` set m = fst ` set (AList.update (ident c) ?pick na) \<union> ident ` set rest"
    by blast
  have "phase2 rnd available True (c # rest) na tk k = (m, tk', True, k + length (c # rest))"
    using ne r by (simp add: Let_def)
  moreover have "fst ` set m = fst ` set na \<union> ident ` set (c # rest)"
    using ks by (auto simp: dom_update)
  ultimately show ?case by blast
qed

lemma phase1_keys:
  assumes "phase1 rnd d dates available esc chs na tk k = (m, tk', True, k')"
  shows "fst ` set m = fst ` set na \<union> ident ` set chs \<and> k' = k + length chs"
  using assms
proof (induction chs arbitrary: na tk k)
  case Nil
  then show ?case by simp
next
  case (Cons c rest)
  let ?cands = "strictCandidates d dates available esc tk c"
  let ?pick = "?cands ! randomIndex (rnd k) (length ?cands)"
  have ne: "?cands \<noteq> []"
    using Cons.prems by (auto simp: Let_def split: if_splits)
  then have "phase1 rnd d dates available esc rest (AList.update (ident c) ?pick na)
               (insert ?pick tk) (Suc k) = (m, tk', True, k')"
    using Cons.prems by (simp add: Let_def)
  from Cons.IH [OF this] show ?case by (auto simp: dom_update)
qed

lemma phase2_keys:
  assumes "phase2 rnd available esc chs na tk k = (m, tk', True, k')"
  shows "fst ` set m = fst ` set na \<union> ident ` set chs \<and> k' = k + length chs"
  using assms
proof (induction chs arbitrary: na tk k)
  case Nil
  then show ?case by simp
next
  case (Cons c rest)
  let ?cands = "relaxedCandidates available esc tk"
  let ?pick = "?cands ! randomIndex (rnd k) (length ?cands)"
  have ne: "?cands \<noteq> []"
    using Cons.prems by (auto simp: Let_def split: if_splits)
  then have "phase2 rnd available esc rest (AList.update (ident c) ?pick na)
               (insert ?pick tk) (Suc k) = (m, tk', True, k')"
    using Cons.prems by (simp add: Let_def)
  from Cons.IH [OF this] show ?case by (auto simp: dom_update)
qed

lemma sanitizeDay_fields [simp]:
  "assignments (sanitizeDay d date day) = assignments day"
  "confirmed (sanitizeDay d date day) = confirmed day"
  by (simp_all add: sanitizeDay_def Let_def)

lemma sanitizeDay_record:
  "sanitizeDay d date day =
     day\<lparr>availablePersonIds := availablePersonIds (sanitizeDay d date day)\<rparr>"
  by (simp add: sanitizeDay_def Let_def)

text \<open>The handler on a store that has a record for today, after normalization.\<close>

lemma generate_existing:
  assumes "map_of (assignmentsByDate (storage w)) today = Some r"
  shows "generateAssignments rnd today w =
     (let d = fst (normalizeAvailability (storage w) today w);
          w1 = saveData d w;
          day = sanitizeDay (storage w) today r
      in if confirmed day then alert msgConfirmed w1
         else if availablePersonIds day = [] then w1\<lparr>warning := msgNoPeople\<rparr>
         else if length (availablePersonIds day) < length (chores d)
           then w1\<lparr>warning := msgNotEnough\<rparr>
         else allocate rnd today d day (w1\<lparr>warning := []\<rparr>))"
  using assms
  by (simp add: generateAssignments_def loadData_def normalizeAvailability_def Let_def)

lemma normalize_chores [simp]:
  "chores (fst (normalizeAvailability d date w)) = chores d"
  "people (fst (normalizeAvailability d date w)) = people d"
  by (simp_all add: normalizeAvailability_def Let_def split: option.splits)

lemma allocate_phase1:
  assumes "phase1 rnd d (datesBefore d today) (availablePersonIds day)
             (length (chores d) \<le> length (availablePersonIds day)) (chores d) [] {} (drawn w) =
           (m, tk, True, k)"
  shows "allocate rnd today d day w = commit d today day m (w\<lparr>drawn := k\<rparr>)"
  using assms by (simp add: allocate_def Let_def)

lemma allocate_phase2:
  assumes "phase1 rnd d (datesBefore d today) (availablePersonIds day)
             (length (chores d) \<le> length (availablePersonIds day)) (chores d) [] {} (drawn w) =
           (p, tk, False, k1)"
    and "phase2 rnd (availablePersonIds day)
             (length (chores d) \<le> length (availablePersonIds day)) (chores d) [] {} k1 =
           (m, tk2, True, k2)"
  shows "allocate rnd today d day w =
           commit d today day m (w\<lparr>drawn := k2, warning := msgRelaxed\<rparr>)"
  using assms by (simp add: allocate_def Let_def)

lemma allocate_impossible:
  assumes "phase1 rnd d (datesBefore d today) (availablePersonIds day)
             (length (chores d) \<le> length (availablePersonIds day)) (chores d) [] {} (drawn w) =
           (p, tk, False, k1)"
    and "phase2 rnd (availablePersonIds day)
             (length (chores d) \<le> length (availablePersonIds day)) (chores d) [] {} k1 =
           (m, tk2, False, k2)"
  shows "allocate rnd today d day w = w\<lparr>drawn := k2, warning := msgImpossible\<rparr>"
  using assms by (simp add: allocate_def Let_def)

lemma commit_fields [simp]:
  "warning (commit d today day m w) = warning w"
  "alerts (commit d today day m w) = alerts w"
  "drawn (commit d today day m w) = drawn w"
  "saved (commit d today day m w) = saved w @ [storage (commit d today day m w)]"
  "storage (commit d today day m w) =
     d\<lparr>assignmentsByDate :=
         AList.update today (day\<lparr>assignments := m\<rparr>) (assignmentsByDate d)\<rparr>"
  "map_of (assignmentsByDate (storage (commit d today day m w))) today =
     Some (day\<lparr>assignments := m\<rparr>)"
  by (simp_all add: commit_def saveData_def update_conv')

lemma msg_distinct [simp]:
  "msgNoPeople \<noteq> msgImpossible" "msgNotEnough \<noteq> msgImpossible"
  "msgRelaxed \<noteq> msgImpossible" "[] \<noteq> msgImpossible"
  "msgRelaxed \<noteq> []"
  by (simp_all add: msgNoPeople_def msgImpossible_def msgNotEnough_def msgRelaxed_def)

lemma phase1_cases:
  obtains (ok) m tk k where "phase1 rnd d dates available esc chs na tk0 k0 = (m, tk, True, k)"
  | (abort) p tk k where "phase1 rnd d dates available esc chs na tk0 k0 = (p, tk, False, k)"
  by (metis (full_types) prod_cases4)

lemma phase2_cases:
  obtains (ok) m tk k where "phase2 rnd available esc chs na tk0 k0 = (m, tk, True, k)"
  | (abort) p tk k where "phase2 rnd available esc chs na tk0 k0 = (p, tk, False, k)"
  by (metis (full_types) prod_cases4)

lemma normalize_saved:
  "snd (normalizeAvailability d date w) = saveData (fst (normalizeAvailability d date w)) w"
  by (simp add: normalizeAvailability_def Let_def split: option.splits)

lemmas engine_defs = strictCandidates_def consecutiveBlocked_def cooldownBlocked_def
  relaxedCandidates_def randomIndex_def assignedOn_def hadChoreOn_def allocate_def commit_def
  Let_def

lemma rev_sort_two:
  fixes xs :: "'a::linorder list"
  assumes "rev (sort xs) = x1 # x2 # rest"
  shows "x2 \<le> x1 \<and> (\<forall>y\<in>set xs. y = x1 \<or> y \<le> x2)"
proof -
  have s: "sort xs = rev rest @ [x2, x1]"
    using assms by (metis append.assoc append_Cons append_Nil rev.simps(2) rev_rev_ident)
  have "sorted (rev rest @ [x2, x1])"
    using sorted_sort [of xs] s by simp
  then have le: "x2 \<le> x1" "\<forall>y\<in>set (rev rest). y \<le> x2"
    by (auto simp: sorted_append)
  have "set xs = set (rev rest @ [x2, x1])"
    using s by (metis set_sort)
  then show ?thesis using le by auto
qed

lemma strictCandidates_member:
  "pid \<in> set (strictCandidates d dates available esc taken chore) \<longleftrightarrow>
     pid \<in> set available \<and> (esc \<longrightarrow> pid \<notin> taken)
     \<and> \<not> consecutiveBlocked d dates pid \<and> \<not> cooldownBlocked d dates (ident chore) pid"
  by (auto simp: strictCandidates_def Let_def)

lemmas date_defs = isoDateValue_def digitValue_def daysBeforeMonth_def dayFromYear_def
  daysInMonth_def inLeapYear_def

lemma fold_delete_lookup:
  "map_of (fold (\<lambda>date al. if P date then AList.delete date al else al) ks al) k =
     (if k \<in> set ks \<and> P k then None else map_of al k)"
  by (induction ks arbitrary: al) (auto simp: delete_conv')

lemma setDateBack_eq:
  "setDateBack z days t =
     t + offsetAtInstant z t - days * msPerDay
       - offsetAtLocal z (t + offsetAtInstant z t - days * msPerDay)"
proof -
  have "(lt div msPerDay - days) * msPerDay + lt mod msPerDay = lt - days * msPerDay" for lt
    using div_mult_mod_eq [of lt msPerDay] by (simp add: algebra_simps)
  then show ?thesis
    by (simp add: setDateBack_def localTime_def utcOfLocal_def Let_def)
qed


lemma sweep_lookup:
  "map_of (assignmentsByDate (storage (cleanupOldData dateValue z now w))) k =
     (if isOld dateValue (setDateBack z 30 now) k then None
      else map_of (assignmentsByDate (storage w)) k)"
proof -
  have "k \<notin> set (map fst (assignmentsByDate (storage w))) \<Longrightarrow>
          map_of (assignmentsByDate (storage w)) k = None"
    by (simp add: map_of_eq_None_iff)
  then show ?thesis
    by (auto simp: cleanupOldData_def loadData_def saveData_def alert_def Let_def
        fold_delete_lookup)
qed


text \<open>
  The two copies of \<^verbatim>\<open>normalizeAvailability\<close> change the document in the same way, and
  on a document that has an unconfirmed record for today the two handlers do the same.
\<close>

lemma normalize_part_001_agrees:
  "fst (normalizeAvailability_part_001 d date) = fst (normalizeAvailability d date w)"
  "map_of (assignmentsByDate (fst (normalizeAvailability d date w))) date =
     Some (snd (normalizeAvailability_part_001 d date))"
  by (simp_all add: normalizeAvailability_part_001_def normalizeAvailability_def Let_def
      update_conv' map_add_def split: option.splits)

lemma generate_part_001_agrees:
  assumes "map_of (assignmentsByDate (storage w)) today = Some r" "\<not> confirmed r"
  shows "generateAssignments_part_001 rnd today w = generateAssignments rnd today w"
  using assms
  by (simp add: generateAssignments_part_001_def normalizeAvailability_part_001_def
      generateAssignments_def normalizeAvailability_def loadData_def showError_def
      clearError_def Let_def)

section \<open>The end-to-end scenario\<close>

text \<open>
  Claim C1 says that with two chores, three available people and no earlier record,
  generation commits two distinct people and produces no warning. The code does not do
  that. With no earlier date, \<^verbatim>\<open>dates.slice(0, 2).every(...)\<close> is true of everybody, so
  the consecutive-day filter empties the candidate list of the first chore and Phase 1
  fails without a pick, whatever the random source. Phase 2 then assigns both chores and
  the handler shows the relaxation warning, in src/script.js and in src/unnamed/part_001
  alike. With the first candidate picked each time the committed map gives Dishes to
  \<open>A\<close> and Trash to \<open>B\<close>.
\<close>

theorem C1_empty_history_relaxes:
  "phase1 rnd storeFirstDay (datesBefore storeFirstDay ''2024-03-10'') [''A'', ''B'', ''C''] True
     [Dishes, Trash] [] {} 0 = ([], {}, False, 0)
   \<and> warning (generateAssignments rnd ''2024-03-10'' (emptyWorld storeFirstDay)) = msgRelaxed
   \<and> warning (generateAssignments_part_001 rnd ''2024-03-10'' (emptyWorld storeFirstDay)) =
       msgRelaxed
   \<and> map_of (assignmentsByDate
         (storage (generateAssignments zeroDraws ''2024-03-10'' (emptyWorld storeFirstDay))))
         ''2024-03-10'' =
       Some \<lparr>availablePersonIds = [''A'', ''B'', ''C''],
             assignments = [(''c1'', ''A''), (''c2'', ''B'')], confirmed = False\<rparr>"
proof -
  let ?w = "emptyWorld storeFirstDay"
  let ?day = "\<lparr>availablePersonIds = [''A'', ''B'', ''C''], assignments = [], confirmed = False\<rparr>"
  have ex: "map_of (assignmentsByDate (storage ?w)) ''2024-03-10'' = Some ?day"
    by (simp add: emptyWorld_def storeFirstDay_def)
  have san: "sanitizeDay (storage ?w) ''2024-03-10'' ?day = ?day"
    by (simp add: emptyWorld_def storeFirstDay_def sanitizeDay_def knownPerson_def personA_def
        personB_def personC_def)
  have dN: "fst (normalizeAvailability (storage ?w) ''2024-03-10'' ?w) = storeFirstDay"
    using ex san by (simp add: normalizeAvailability_def Let_def) (simp add: emptyWorld_def storeFirstDay_def)
  have dates: "datesBefore storeFirstDay ''2024-03-10'' = []"
    by (simp add: datesBefore_def storeFirstDay_def)
  have p1: "phase1 rnd storeFirstDay (datesBefore storeFirstDay ''2024-03-10'') [''A'', ''B'', ''C''] True
     [Dishes, Trash] [] {} 0 = ([], {}, False, 0)"
    by (simp add: dates strictCandidates_def consecutiveBlocked_def)
  have "length [Dishes, Trash] \<le> card (set [''A'', ''B'', ''C''] - {})" by simp
  from phase2_completes [OF this, of rnd "[]" 0]
  obtain m tk where p2: "phase2 rnd [''A'', ''B'', ''C''] True [Dishes, Trash] [] {} 0 =
      (m, tk, True, 0 + length [Dishes, Trash])"
    by blast
  have ch: "chores storeFirstDay = [Dishes, Trash]" by (simp add: storeFirstDay_def)
  let ?w2 = "saveData storeFirstDay ?w\<lparr>warning := []\<rparr>"
  have p1': "phase1 rnd storeFirstDay (datesBefore storeFirstDay ''2024-03-10'') (availablePersonIds ?day)
             (length (chores storeFirstDay) \<le> length (availablePersonIds ?day)) (chores storeFirstDay) [] {}
             (drawn ?w2) = ([], {}, False, 0)"
    using p1 by (simp add: ch saveData_def emptyWorld_def)
  have p2': "phase2 rnd (availablePersonIds ?day)
             (length (chores storeFirstDay) \<le> length (availablePersonIds ?day)) (chores storeFirstDay) [] {} 0 =
             (m, tk, True, 0 + length [Dishes, Trash])"
    using p2 by (simp add: ch)
  note al = allocate_phase2 [OF p1' p2']
  have g: "warning (generateAssignments rnd ''2024-03-10'' ?w) = msgRelaxed"
    by (simp add: generate_existing [OF ex] san dN Let_def ch al)
  have z: "map_of (assignmentsByDate
         (storage (generateAssignments zeroDraws ''2024-03-10'' ?w))) ''2024-03-10'' =
       Some \<lparr>availablePersonIds = [''A'', ''B'', ''C''],
             assignments = [(''c1'', ''A''), (''c2'', ''B'')], confirmed = False\<rparr>"
    by (simp add: generate_existing [OF ex] san dN Let_def ch allocate_def dates
        strictCandidates_def consecutiveBlocked_def relaxedCandidates_def randomIndex_def
        zeroDraws_def Dishes_def Trash_def update_conv')
  have same: "generateAssignments_part_001 rnd ''2024-03-10'' ?w =
                generateAssignments rnd ''2024-03-10'' ?w"
    by (rule generate_part_001_agrees [OF ex]) simp
  show ?thesis using p1 g z same by simp
qed

section \<open>Failure of Phase 2\<close>

text \<open>
  Claim C2, as amended. When Phase 1 has failed and some chore of the Phase 2 pass has an
  empty candidate list, the handler sets the one warning
  \<^verbatim>\<open>Assignment impossible without violating daily limits. Manual review required.\<close>,
  which names no chore, and returns before the commit: the stored document is the
  normalized one, today's assignments are what they were, and the partial map of the pass
  is dropped.
\<close>

theorem C2_phase2_failure_discards:
  assumes ex: "map_of (assignmentsByDate (storage w)) today = Some r"
    and day: "day = sanitizeDay (storage w) today r"
    and dN: "dN = fst (normalizeAvailability (storage w) today w)"
    and nc: "\<not> confirmed day"
    and ne: "availablePersonIds day \<noteq> []"
    and len: "length (chores dN) \<le> length (availablePersonIds day)"
    and p1: "phase1 rnd dN (datesBefore dN today) (availablePersonIds day) True (chores dN)
               [] {} (drawn w) = (p, tk, False, k1)"
    and p2: "phase2 rnd (availablePersonIds day) True (chores dN) [] {} k1 =
               (m, tk2, False, k2)"
    and w': "w' = generateAssignments rnd today w"
  shows "warning w' = msgImpossible
       \<and> alerts w' = alerts w
       \<and> drawn w' = k2
       \<and> storage w' = dN
       \<and> saved w' = saved w @ [dN]
       \<and> map_of (assignmentsByDate (storage w')) today = Some day
       \<and> assignments day = assignments r"
proof -
  let ?av = "availablePersonIds day"
  let ?w2 = "(saveData dN w)\<lparr>warning := []\<rparr>"
  have g: "w' = allocate rnd today dN day ?w2"
    using ne nc len
    by (simp add: w' generate_existing [OF ex] Let_def day [symmetric] dN [symmetric])
  have a1: "phase1 rnd dN (datesBefore dN today) ?av (length (chores dN) \<le> length ?av)
              (chores dN) [] {} (drawn ?w2) = (p, tk, False, k1)"
    using p1 len by (simp add: saveData_def)
  have a2: "phase2 rnd ?av (length (chores dN) \<le> length ?av) (chores dN) [] {} k1 =
              (m, tk2, False, k2)"
    using p2 len by simp
  have "w' = ?w2\<lparr>drawn := k2, warning := msgImpossible\<rparr>"
    using allocate_impossible [OF a1 a2] g by simp
  moreover have "map_of (assignmentsByDate dN) today = Some day"
    using normalize_existing(3) [OF ex, of w] by (simp add: dN day)
  ultimately show ?thesis by (simp add: saveData_def day)
qed

theorem C2_phase2_failure_discards_witness:
  "phase2 zeroDraws [''A'', ''A''] True [Dishes, Trash] [] {} 0 =
     ([(''c1'', ''A'')], {''A''}, False, 1)
   \<and> warning (generateAssignments zeroDraws ''2024-03-10'' (emptyWorld storeDup)) = msgImpossible
   \<and> storage (generateAssignments zeroDraws ''2024-03-10'' (emptyWorld storeDup)) = storeDup"
proof -
  let ?w = "emptyWorld storeDup"
  let ?day = "\<lparr>availablePersonIds = [''A'', ''A''], assignments = [], confirmed = False\<rparr>"
  have ex: "map_of (assignmentsByDate (storage ?w)) ''2024-03-10'' = Some ?day"
    by (simp add: emptyWorld_def storeDup_def)
  have san: "?day = sanitizeDay (storage ?w) ''2024-03-10'' ?day"
    by (simp add: emptyWorld_def storeDup_def sanitizeDay_def knownPerson_def personA_def)
  have dN: "storeDup = fst (normalizeAvailability (storage ?w) ''2024-03-10'' ?w)"
    using ex san [symmetric]
    by (simp add: normalizeAvailability_def Let_def) (simp add: emptyWorld_def storeDup_def)
  have p1: "phase1 zeroDraws storeDup (datesBefore storeDup ''2024-03-10'')
              (availablePersonIds ?day) True (chores storeDup) [] {} (drawn ?w) = ([], {}, False, 0)"
    by (simp add: storeDup_def datesBefore_def engine_defs emptyWorld_def)
  have p2: "phase2 zeroDraws (availablePersonIds ?day) True (chores storeDup) [] {} 0 =
              ([(''c1'', ''A'')], {''A''}, False, 1)"
    by (simp add: storeDup_def engine_defs zeroDraws_def Dishes_def Trash_def)
  have ch: "chores storeDup = [Dishes, Trash]" by (simp add: storeDup_def)
  show ?thesis
    using C2_phase2_failure_discards [OF ex san dN _ _ _ p1 p2 refl] p2
    by (simp add: ch)
qed

text \<open>
  Claim C2 as stated fails. On the document with the duplicated id, Phase 2 gives Dishes to
  \<open>A\<close> and finds no candidate for Trash; the partial map \<open>[(c1, A)]\<close> is not written
  (today's assignments stay empty) and the warning does not name Trash.
\<close>

theorem C2_partial_map_discarded_counterexample:
  "phase2 zeroDraws [''A'', ''A''] True [Dishes, Trash] [] {} 0 =
     ([(''c1'', ''A'')], {''A''}, False, 1)
   \<and> map_of (assignmentsByDate
         (storage (generateAssignments zeroDraws ''2024-03-10'' (emptyWorld storeDup))))
         ''2024-03-10'' =
       Some \<lparr>availablePersonIds = [''A'', ''A''], assignments = [], confirmed = False\<rparr>
   \<and> warning (generateAssignments zeroDraws ''2024-03-10'' (emptyWorld storeDup)) =
       ''Assignment impossible without violating daily limits. Manual review required.''"
  by (simp add: generateAssignments_def loadData_def emptyWorld_def storeDup_def normalize_defs
      engine_defs zeroDraws_def Dishes_def Trash_def personA_def update_conv' msgImpossible_def)

section \<open>The consecutive-day rule\<close>

text \<open>
  With two or more recorded dates before today the filter does what its comment says. Take
  a Phase 1 iteration, a chore, and an available person who is not yet picked in this pass
  and not in cooldown for the chore, so that only the consecutive-day rule can exclude
  them. With \<open>d1\<close> and \<open>d2\<close> the two most recent dates before today, the person is
  excluded exactly when they have an assignment on both.
\<close>

lemma consecutive_rule_two_dates:
  assumes av: "pid \<in> set available"
    and tk: "esc \<longrightarrow> pid \<notin> taken"
    and cd: "\<not> cooldownBlocked d (datesBefore d today) (ident chore) pid"
  shows "(pid \<notin> set (strictCandidates d (datesBefore d today) available esc taken chore) \<longrightarrow>
            (\<forall>x\<in>set (take 2 (datesBefore d today)). assignedOn d x pid))
       \<and> (\<forall>d1 d2 rest. datesBefore d today = d1 # d2 # rest \<longrightarrow>
            (pid \<notin> set (strictCandidates d (datesBefore d today) available esc taken chore) \<longleftrightarrow>
               assignedOn d d1 pid \<and> assignedOn d d2 pid)
            \<and> d1 < today \<and> d2 < today \<and> d2 \<le> d1
            \<and> (\<forall>y\<in>set (map fst (assignmentsByDate d)). y < today \<longrightarrow> y = d1 \<or> y \<le> d2))"
proof -
  have ex: "pid \<notin> set (strictCandidates d (datesBefore d today) available esc taken chore) \<longleftrightarrow>
              consecutiveBlocked d (datesBefore d today) pid"
    using av tk cd by (simp add: strictCandidates_member)
  have a: "pid \<notin> set (strictCandidates d (datesBefore d today) available esc taken chore) \<longrightarrow>
            (\<forall>x\<in>set (take 2 (datesBefore d today)). assignedOn d x pid)"
    by (simp add: ex consecutiveBlocked_def list_all_iff)
  have b: "(pid \<notin> set (strictCandidates d (datesBefore d today) available esc taken chore) \<longleftrightarrow>
               assignedOn d d1 pid \<and> assignedOn d d2 pid)
            \<and> d1 < today \<and> d2 < today \<and> d2 \<le> d1
            \<and> (\<forall>y\<in>set (map fst (assignmentsByDate d)). y < today \<longrightarrow> y = d1 \<or> y \<le> d2)"
    if h: "datesBefore d today = d1 # d2 # rest" for d1 d2 rest
  proof -
    have "d1 \<in> set (datesBefore d today)" "d2 \<in> set (datesBefore d today)"
      using h by simp_all
    then have lt: "d1 < today" "d2 < today"
      by (simp_all add: datesBefore_set)
    have two: "d2 \<le> d1 \<and> (\<forall>y\<in>set (filter (\<lambda>x. x < today) (map fst (assignmentsByDate d))).
                   y = d1 \<or> y \<le> d2)"
      using rev_sort_two [OF h [unfolded datesBefore_def]] .
    have "consecutiveBlocked d (datesBefore d today) pid \<longleftrightarrow>
            assignedOn d d1 pid \<and> assignedOn d d2 pid"
      by (simp add: consecutiveBlocked_def h)
    then show ?thesis using ex lt two by auto
  qed
  show ?thesis using a b by blast
qed

lemma consecutive_rule_two_dates_example:
  "datesBefore storeHist ''2024-03-10'' = [''2024-03-09'', ''2024-03-08'']
   \<and> assignedOn storeHist ''2024-03-08'' ''A'' \<and> \<not> assignedOn storeHist ''2024-03-09'' ''A''
   \<and> ''A'' \<in> set (strictCandidates storeHist (datesBefore storeHist ''2024-03-10'')
                   [''A'', ''B'', ''C''] True {} Dishes)
   \<and> assignedOn storeHist ''2024-03-08'' ''C'' \<and> assignedOn storeHist ''2024-03-09'' ''C''
   \<and> ''C'' \<notin> set (strictCandidates storeHist (datesBefore storeHist ''2024-03-10'')
                   [''A'', ''B'', ''C''] True {} Dishes)"
proof -
  have dt: "datesBefore storeHist ''2024-03-10'' = [''2024-03-09'', ''2024-03-08'']"
    by (simp add: datesBefore_def storeHist_def)
  have as: "assignedOn storeHist ''2024-03-08'' ''A''" "\<not> assignedOn storeHist ''2024-03-09'' ''A''"
    "assignedOn storeHist ''2024-03-08'' ''C''" "assignedOn storeHist ''2024-03-09'' ''C''"
    by (simp_all add: assignedOn_def storeHist_def)
  have cdA: "\<not> cooldownBlocked storeHist (datesBefore storeHist ''2024-03-10'') (ident Dishes) ''A''"
    and cdC: "\<not> cooldownBlocked storeHist (datesBefore storeHist ''2024-03-10'') (ident Dishes) ''C''"
    unfolding dt cooldownBlocked_def
    by (simp_all add: hadChoreOn_def storeHist_def Dishes_def)
  have avA: "''A'' \<in> set [''A'', ''B'', ''C'']" and avC: "''C'' \<in> set [''A'', ''B'', ''C'']"
    by simp_all
  have tk: "True \<longrightarrow> x \<notin> {}" for x :: string by simp
  from consecutive_rule_two_dates [OF avA tk cdA] dt as
  have "''A'' \<in> set (strictCandidates storeHist (datesBefore storeHist ''2024-03-10'')
                   [''A'', ''B'', ''C''] True {} Dishes)"
    by blast
  moreover from consecutive_rule_two_dates [OF avC tk cdC] dt as
  have "''C'' \<notin> set (strictCandidates storeHist (datesBefore storeHist ''2024-03-10'')
                   [''A'', ''B'', ''C''] True {} Dishes)"
    by blast
  ultimately show ?thesis using dt as by simp
qed

text \<open>
  Claim C3 says that the consecutive-day rule excludes an available person only if they
  are assigned on every one of the 2 most recent prior recorded dates, and that an
  assignment on merely one day does not exclude them. With fewer than two prior dates the
  code does otherwise, because \<^verbatim>\<open>dates.slice(0, 2).every(...)\<close> then ranges over a
  shorter slice. With no prior date, \<open>A\<close> has no assignment on any day and is excluded
  from the candidates of Dishes (as everybody is). With one prior date, on which \<open>A\<close>
  had the other chore, \<open>A\<close> is excluded from the candidates of Dishes on the strength of
  that single day, while \<open>B\<close> and \<open>C\<close> stay. In both cases \<open>A\<close> is not yet picked
  and not in cooldown for Dishes.
\<close>

theorem C3_short_history_excludes:
  "datesBefore storeFirstDay ''2024-03-10'' = []
   \<and> \<not> cooldownBlocked storeFirstDay (datesBefore storeFirstDay ''2024-03-10'') (ident Dishes) ''A''
   \<and> strictCandidates storeFirstDay (datesBefore storeFirstDay ''2024-03-10'')
        [''A'', ''B'', ''C''] True {} Dishes = []
   \<and> datesBefore storeOneDay ''2024-03-10'' = [''2024-03-09'']
   \<and> assignedOn storeOneDay ''2024-03-09'' ''A''
   \<and> \<not> cooldownBlocked storeOneDay (datesBefore storeOneDay ''2024-03-10'') (ident Dishes) ''A''
   \<and> strictCandidates storeOneDay (datesBefore storeOneDay ''2024-03-10'')
        [''A'', ''B'', ''C''] True {} Dishes = [''B'', ''C'']
   \<and> phase1 zeroDraws storeOneDay (datesBefore storeOneDay ''2024-03-10'') [''A'', ''B'', ''C'']
        True [Dishes, Trash] [] {} 0 = ([(''c1'', ''B''), (''c2'', ''C'')], {''B'', ''C''}, True, 2)"
proof -
  have d0: "datesBefore storeFirstDay ''2024-03-10'' = []"
    by (simp add: datesBefore_def storeFirstDay_def)
  have d1: "datesBefore storeOneDay ''2024-03-10'' = [''2024-03-09'']"
    by (simp add: datesBefore_def storeOneDay_def)
  have a0: "\<not> cooldownBlocked storeFirstDay [] (ident Dishes) ''A''"
    and b0: "strictCandidates storeFirstDay [] [''A'', ''B'', ''C''] True {} Dishes = []"
    by (simp_all add: engine_defs)
  have a1: "assignedOn storeOneDay ''2024-03-09'' ''A''"
    and b1: "\<not> cooldownBlocked storeOneDay [''2024-03-09''] (ident Dishes) ''A''"
    and c1: "strictCandidates storeOneDay [''2024-03-09''] [''A'', ''B'', ''C''] True {} Dishes =
               [''B'', ''C'']"
    by (simp_all add: engine_defs storeOneDay_def Dishes_def)
  have p: "phase1 zeroDraws storeOneDay [''2024-03-09''] [''A'', ''B'', ''C'']
        True [Dishes, Trash] [] {} 0 = ([(''c1'', ''B''), (''c2'', ''C'')], {''B'', ''C''}, True, 2)"
    by (simp add: engine_defs storeOneDay_def Dishes_def Trash_def zeroDraws_def insert_commute)
  show ?thesis
    unfolding d0 d1 using a0 b0 a1 b1 c1 p by simp
qed

section \<open>The validation blocks\<close>

text \<open>
  Claim C4, as amended. When today's record exists at the time of the call and, after
  normalization, it is confirmed, or nobody is available, or fewer people are available
  than there are chores, the handler
  makes no draw and shows exactly one message (an alert when the record is confirmed,
  otherwise the text of the warning element). The stored document changes in one place
  only: today's \<^verbatim>\<open>availablePersonIds\<close> is the normalized list, saved before the
  checks. Today's assignments and confirmed flag, the other days, the chores and the people
  are as before, and when normalization leaves the availability as it was the stored
  document is unchanged.
\<close>

theorem C4_validation_blocks:
  assumes ex: "map_of (assignmentsByDate (storage w)) today = Some r"
    and day: "day = sanitizeDay (storage w) today r"
    and blocked: "confirmed day \<or> availablePersonIds day = []
                  \<or> length (availablePersonIds day) < length (chores (storage w))"
    and w': "w' = generateAssignments rnd today w"
  shows "drawn w' = drawn w
       \<and> storage w' =
           (storage w)\<lparr>assignmentsByDate :=
              AList.update today (r\<lparr>availablePersonIds := availablePersonIds day\<rparr>)
                (assignmentsByDate (storage w))\<rparr>
       \<and> map_of (assignmentsByDate (storage w')) today =
           Some (r\<lparr>availablePersonIds := availablePersonIds day\<rparr>)
       \<and> (if confirmed r
          then alerts w' = alerts w @ [msgConfirmed] \<and> warning w' = warning w
          else alerts w' = alerts w
               \<and> warning w' = (if availablePersonIds day = [] then msgNoPeople else msgNotEnough))
       \<and> (availablePersonIds day = availablePersonIds r \<longrightarrow> storage w' = storage w)"
proof -
  let ?dN = "fst (normalizeAvailability (storage w) today w)"
  have rec: "day = r\<lparr>availablePersonIds := availablePersonIds day\<rparr>"
    unfolding day by (rule sanitizeDay_record)
  have dN: "?dN = (storage w)\<lparr>assignmentsByDate :=
              AList.update today (r\<lparr>availablePersonIds := availablePersonIds day\<rparr>)
                (assignmentsByDate (storage w))\<rparr>"
    using normalize_existing(1) [OF ex, of w] rec by (simp add: day [symmetric])
  have same: "availablePersonIds day = availablePersonIds r \<Longrightarrow> ?dN = storage w"
    using dN update_triv [OF ex] by simp
  have cf: "confirmed day = confirmed r" by (simp add: day)
  have g: "w' = (if confirmed r then alert msgConfirmed (saveData ?dN w)
                 else if availablePersonIds day = [] then (saveData ?dN w)\<lparr>warning := msgNoPeople\<rparr>
                 else (saveData ?dN w)\<lparr>warning := msgNotEnough\<rparr>)"
    using blocked cf
    by (auto simp: w' generate_existing [OF ex] Let_def day [symmetric])
  have st: "storage w' = ?dN"
    by (simp add: g saveData_def alert_def)
  have c1: "drawn w' = drawn w"
    by (simp add: g saveData_def alert_def)
  have c2: "storage w' =
           (storage w)\<lparr>assignmentsByDate :=
              AList.update today (r\<lparr>availablePersonIds := availablePersonIds day\<rparr>)
                (assignmentsByDate (storage w))\<rparr>"
    using st dN by simp
  have c3: "map_of (assignmentsByDate (storage w')) today =
           Some (r\<lparr>availablePersonIds := availablePersonIds day\<rparr>)"
    unfolding c2 by (simp add: update_conv')
  have c4: "if confirmed r
          then alerts w' = alerts w @ [msgConfirmed] \<and> warning w' = warning w
          else alerts w' = alerts w
               \<and> warning w' = (if availablePersonIds day = [] then msgNoPeople else msgNotEnough)"
    by (simp add: g saveData_def alert_def)
  have c5: "availablePersonIds day = availablePersonIds r \<longrightarrow> storage w' = storage w"
    using st same by simp
  show ?thesis
    using c1 c2 c3 c4 c5 by blast
qed

theorem C4_validation_blocks_witness:
  "confirmed (sanitizeDay (storage (emptyWorld storeConfirmed)) ''2024-03-10''
      \<lparr>availablePersonIds = [''A''], assignments = [(''c1'', ''A'')], confirmed = True\<rparr>)
   \<and> alerts (generateAssignments zeroDraws ''2024-03-10'' (emptyWorld storeConfirmed)) =
       [msgConfirmed]
   \<and> warning (generateAssignments zeroDraws ''2024-03-10'' (emptyWorld storeConfirmed)) = []
   \<and> drawn (generateAssignments zeroDraws ''2024-03-10'' (emptyWorld storeConfirmed)) = 0
   \<and> storage (generateAssignments zeroDraws ''2024-03-10'' (emptyWorld storeConfirmed)) =
       storeConfirmed"
proof -
  let ?w = "emptyWorld storeConfirmed"
  let ?r = "\<lparr>availablePersonIds = [''A''], assignments = [(''c1'', ''A'')], confirmed = True\<rparr>"
  have ex: "map_of (assignmentsByDate (storage ?w)) ''2024-03-10'' = Some ?r"
    by (simp add: emptyWorld_def storeConfirmed_def)
  have san: "sanitizeDay (storage ?w) ''2024-03-10'' ?r = ?r"
    by (simp add: emptyWorld_def storeConfirmed_def sanitizeDay_def knownPerson_def personA_def)
  have b: "confirmed (sanitizeDay (storage ?w) ''2024-03-10'' ?r)
           \<or> availablePersonIds (sanitizeDay (storage ?w) ''2024-03-10'' ?r) = []
           \<or> length (availablePersonIds (sanitizeDay (storage ?w) ''2024-03-10'' ?r))
                < length (chores (storage ?w))"
    by (simp add: san)
  show ?thesis
    using C4_validation_blocks [OF ex refl b refl, of zeroDraws] san
    by (simp add: emptyWorld_def storeConfirmed_def)
qed

text \<open>
  Claim C4 as stated fails on "mutates no state": with nobody available today and \<open>A\<close>
  available the day before, the handler stores \<open>[A]\<close> as today's availability and then
  stops at the second block. It also fails when today has no record yet: on the document
  without days the handler of src/script.js stores a new record for today, in which nobody
  is available, and returns without any message.
\<close>

theorem C4_normalization_saved_counterexample:
  "map_of (assignmentsByDate (storage (emptyWorld storeNobodyToday))) ''2024-03-10'' =
     Some \<lparr>availablePersonIds = [], assignments = [], confirmed = False\<rparr>
   \<and> warning (generateAssignments zeroDraws ''2024-03-10'' (emptyWorld storeNobodyToday)) = msgNotEnough
   \<and> map_of (assignmentsByDate
         (storage (generateAssignments zeroDraws ''2024-03-10'' (emptyWorld storeNobodyToday))))
         ''2024-03-10'' =
     Some \<lparr>availablePersonIds = [''A''], assignments = [], confirmed = False\<rparr>
   \<and> storage (generateAssignments zeroDraws ''2024-03-10'' (emptyWorld storeNobodyToday)) \<noteq>
       storage (emptyWorld storeNobodyToday)
   \<and> map_of (assignmentsByDate
         (storage (generateAssignments zeroDraws ''2024-03-10'' (emptyWorld storeNoDays))))
         ''2024-03-10'' =
     Some \<lparr>availablePersonIds = [], assignments = [], confirmed = False\<rparr>
   \<and> warning (generateAssignments zeroDraws ''2024-03-10'' (emptyWorld storeNoDays)) = []
   \<and> alerts (generateAssignments zeroDraws ''2024-03-10'' (emptyWorld storeNoDays)) = []"
proof -
  have n: "map_of (assignmentsByDate
         (storage (generateAssignments zeroDraws ''2024-03-10'' (emptyWorld storeNoDays))))
         ''2024-03-10'' =
     Some \<lparr>availablePersonIds = [], assignments = [], confirmed = False\<rparr>"
    "warning (generateAssignments zeroDraws ''2024-03-10'' (emptyWorld storeNoDays)) = []"
    "alerts (generateAssignments zeroDraws ''2024-03-10'' (emptyWorld storeNoDays)) = []"
    by (simp_all add: generateAssignments_def loadData_def emptyWorld_def storeNoDays_def
        normalize_defs)
  have a: "map_of (assignmentsByDate
         (storage (generateAssignments zeroDraws ''2024-03-10'' (emptyWorld storeNobodyToday))))
         ''2024-03-10'' =
     Some \<lparr>availablePersonIds = [''A''], assignments = [], confirmed = False\<rparr>"
    and b: "warning (generateAssignments zeroDraws ''2024-03-10'' (emptyWorld storeNobodyToday)) = msgNotEnough"
    by (simp_all add: generateAssignments_def loadData_def emptyWorld_def storeNobodyToday_def normalize_defs
      Dishes_def Trash_def personA_def update_conv')
  have c: "map_of (assignmentsByDate (storage (emptyWorld storeNobodyToday))) ''2024-03-10'' =
     Some \<lparr>availablePersonIds = [], assignments = [], confirmed = False\<rparr>"
    by (simp add: emptyWorld_def storeNobodyToday_def)
  have "storage (generateAssignments zeroDraws ''2024-03-10'' (emptyWorld storeNobodyToday)) \<noteq>
       storage (emptyWorld storeNobodyToday)"
    using a c by (metis day_record.ext_inject list.distinct(1) option.inject)
  then show ?thesis using a b c n by simp
qed

section \<open>The commit\<close>

text \<open>
  Claim C5. When today's record exists, generation saves the normalized document, in which
  today's assignments are untouched, and after that either saves nothing more, or saves
  exactly once more: the normalized document with today's whole map replaced by \<open>m\<close>.
  In that case \<open>m\<close> has an entry for every chore and is the map of a completed pass,
  either the Phase 1 pass, or, when Phase 1 stopped on an empty candidate list, the Phase 2
  pass started again from the empty map. The picks of a Phase 1 pass that stopped are in no
  saved document.
\<close>

theorem C5_commit_after_complete_phase:
  assumes ex: "map_of (assignmentsByDate (storage w)) today = Some r"
    and day: "day = sanitizeDay (storage w) today r"
    and dN: "dN = fst (normalizeAvailability (storage w) today w)"
    and esc: "esc = (length (chores dN) \<le> length (availablePersonIds day))"
    and w': "w' = generateAssignments rnd today w"
  shows "map_of (assignmentsByDate dN) today = Some day
       \<and> assignments day = assignments r
       \<and> ((saved w' = saved w @ [dN] \<and> storage w' = dN)
          \<or> (\<exists>m. saved w' =
                   saved w @
                     [dN, dN\<lparr>assignmentsByDate :=
                            AList.update today (day\<lparr>assignments := m\<rparr>) (assignmentsByDate dN)\<rparr>]
                \<and> storage w' =
                     dN\<lparr>assignmentsByDate :=
                            AList.update today (day\<lparr>assignments := m\<rparr>) (assignmentsByDate dN)\<rparr>
                \<and> fst ` set m = ident ` set (chores dN)
                \<and> ((\<exists>tk k. phase1 rnd dN (datesBefore dN today) (availablePersonIds day) esc
                              (chores dN) [] {} (drawn w) = (m, tk, True, k))
                   \<or> (\<exists>p tk k1 tk2 k2.
                         phase1 rnd dN (datesBefore dN today) (availablePersonIds day) esc
                           (chores dN) [] {} (drawn w) = (p, tk, False, k1)
                         \<and> phase2 rnd (availablePersonIds day) esc (chores dN) [] {} k1 =
                             (m, tk2, True, k2)))))"
proof -
  let ?av = "availablePersonIds day"
  let ?w1 = "saveData dN w"
  let ?w2 = "?w1\<lparr>warning := []\<rparr>"
  let ?doc = "\<lambda>m. dN\<lparr>assignmentsByDate :=
                 AList.update today (day\<lparr>assignments := m\<rparr>) (assignmentsByDate dN)\<rparr>"
  have l: "map_of (assignmentsByDate dN) today = Some day"
    using normalize_existing(3) [OF ex, of w] by (simp add: dN day)
  have a: "assignments day = assignments r" by (simp add: day)
  have d2: "drawn ?w2 = drawn w" by (simp add: saveData_def)
  have g: "w' = (if confirmed day then alert msgConfirmed ?w1
                 else if ?av = [] then ?w1\<lparr>warning := msgNoPeople\<rparr>
                 else if length ?av < length (chores dN) then ?w1\<lparr>warning := msgNotEnough\<rparr>
                 else allocate rnd today dN day ?w2)"
    by (simp add: w' generate_existing [OF ex] Let_def day [symmetric] dN [symmetric])
  have "(saved w' = saved w @ [dN] \<and> storage w' = dN)
          \<or> (\<exists>m. saved w' = saved w @ [dN, ?doc m]
                \<and> storage w' = ?doc m
                \<and> fst ` set m = ident ` set (chores dN)
                \<and> ((\<exists>tk k. phase1 rnd dN (datesBefore dN today) ?av esc
                              (chores dN) [] {} (drawn w) = (m, tk, True, k))
                   \<or> (\<exists>p tk k1 tk2 k2.
                         phase1 rnd dN (datesBefore dN today) ?av esc
                           (chores dN) [] {} (drawn w) = (p, tk, False, k1)
                         \<and> phase2 rnd ?av esc (chores dN) [] {} k1 = (m, tk2, True, k2))))"
  proof (cases "confirmed day \<or> ?av = [] \<or> length ?av < length (chores dN)")
    case True
    then have "w' = alert msgConfirmed ?w1 \<or> w' = ?w1\<lparr>warning := msgNoPeople\<rparr>
               \<or> w' = ?w1\<lparr>warning := msgNotEnough\<rparr>"
      using g by auto
    then have "saved w' = saved w @ [dN] \<and> storage w' = dN"
      by (auto simp: saveData_def alert_def)
    then show ?thesis by blast
  next
    case False
    then have al: "w' = allocate rnd today dN day ?w2"
      using g by auto
    show ?thesis
    proof (cases rule: phase1_cases [of rnd dN "datesBefore dN today" ?av esc "chores dN" "[]" "{}" "drawn w"])
      case (ok m tk k)
      then have p: "phase1 rnd dN (datesBefore dN today) ?av
                 (length (chores dN) \<le> length ?av) (chores dN) [] {} (drawn ?w2) = (m, tk, True, k)"
        using d2 esc by simp
      have "w' = commit dN today day m (?w2\<lparr>drawn := k\<rparr>)"
        using allocate_phase1 [OF p] al by simp
      then have "saved w' = saved w @ [dN, ?doc m] \<and> storage w' = ?doc m"
        by (simp add: saveData_def)
      moreover have "fst ` set m = ident ` set (chores dN)"
        using phase1_keys [OF ok] by simp
      ultimately show ?thesis using ok by blast
    next
      case (abort p tk k1)
      then have p1: "phase1 rnd dN (datesBefore dN today) ?av
                 (length (chores dN) \<le> length ?av) (chores dN) [] {} (drawn ?w2) = (p, tk, False, k1)"
        using d2 esc by simp
      show ?thesis
      proof (cases rule: phase2_cases [of rnd ?av esc "chores dN" "[]" "{}" k1])
        case (ok m tk2 k2)
        then have p2: "phase2 rnd ?av (length (chores dN) \<le> length ?av) (chores dN) [] {} k1 =
                         (m, tk2, True, k2)"
          using esc by simp
        have "w' = commit dN today day m (?w2\<lparr>drawn := k2, warning := msgRelaxed\<rparr>)"
          using allocate_phase2 [OF p1 p2] al by simp
        then have "saved w' = saved w @ [dN, ?doc m] \<and> storage w' = ?doc m"
          by (simp add: saveData_def)
        moreover have "fst ` set m = ident ` set (chores dN)"
          using phase2_keys [OF ok] by simp
        ultimately show ?thesis using ok abort by blast
      next
        case (abort q tk2 k2)
        then have p2: "phase2 rnd ?av (length (chores dN) \<le> length ?av) (chores dN) [] {} k1 =
                         (q, tk2, False, k2)"
          using esc by simp
        have "w' = ?w2\<lparr>drawn := k2, warning := msgImpossible\<rparr>"
          using allocate_impossible [OF p1 p2] al by simp
        then have "saved w' = saved w @ [dN] \<and> storage w' = dN"
          by (simp add: saveData_def)
        then show ?thesis by blast
      qed
    qed
  qed
  then show ?thesis using l a by blast
qed

theorem C5_commit_after_complete_phase_witness:
  "phase1 altDraws storeAbort (datesBefore storeAbort ''2024-03-10'') [''A'', ''B''] True
        [Dishes, Trash] [] {} 0 = ([(''c1'', ''A'')], {''A''}, False, 1)
   \<and> phase2 altDraws [''A'', ''B''] True [Dishes, Trash] [] {} 1 =
        ([(''c1'', ''B''), (''c2'', ''A'')], {''A'', ''B''}, True, 3)
   \<and> map_of (assignmentsByDate
         (storage (generateAssignments altDraws ''2024-03-10'' (emptyWorld storeAbort))))
         ''2024-03-10'' =
       Some \<lparr>availablePersonIds = [''A'', ''B''],
             assignments = [(''c1'', ''B''), (''c2'', ''A'')], confirmed = False\<rparr>
   \<and> length (saved (generateAssignments altDraws ''2024-03-10'' (emptyWorld storeAbort))) = 2"
proof -
  let ?w = "emptyWorld storeAbort"
  let ?w' = "generateAssignments altDraws ''2024-03-10'' ?w"
  let ?day = "\<lparr>availablePersonIds = [''A'', ''B''], assignments = [], confirmed = False\<rparr>"
  have ex: "map_of (assignmentsByDate (storage ?w)) ''2024-03-10'' = Some ?day"
    by (simp add: emptyWorld_def storeAbort_def)
  have p1: "phase1 altDraws storeAbort (datesBefore storeAbort ''2024-03-10'') [''A'', ''B''] True
        [Dishes, Trash] [] {} 0 = ([(''c1'', ''A'')], {''A''}, False, 1)"
    by (simp add: storeAbort_def datesBefore_def engine_defs altDraws_def Dishes_def Trash_def)
  have p2: "phase2 altDraws [''A'', ''B''] True [Dishes, Trash] [] {} 1 =
        ([(''c1'', ''B''), (''c2'', ''A'')], {''A'', ''B''}, True, 3)"
    by (simp add: engine_defs altDraws_def Dishes_def Trash_def insert_commute)
  have z: "map_of (assignmentsByDate (storage ?w')) ''2024-03-10'' =
       Some \<lparr>availablePersonIds = [''A'', ''B''],
             assignments = [(''c1'', ''B''), (''c2'', ''A'')], confirmed = False\<rparr>"
    by (simp add: generateAssignments_def loadData_def emptyWorld_def storeAbort_def normalize_defs
      engine_defs altDraws_def Dishes_def Trash_def personA_def personB_def update_conv')
  note t = C5_commit_after_complete_phase [OF ex refl refl refl refl, of altDraws]
  have "\<not> (saved ?w' = saved ?w @ [fst (normalizeAvailability (storage ?w) ''2024-03-10'' ?w)]
           \<and> storage ?w' = fst (normalizeAvailability (storage ?w) ''2024-03-10'' ?w))"
  proof
    assume a: "saved ?w' = saved ?w @ [fst (normalizeAvailability (storage ?w) ''2024-03-10'' ?w)]
           \<and> storage ?w' = fst (normalizeAvailability (storage ?w) ''2024-03-10'' ?w)"
    then have "map_of (assignmentsByDate (storage ?w')) ''2024-03-10'' =
                 Some (sanitizeDay (storage ?w) ''2024-03-10'' ?day)"
      using t by simp
    then have "assignments (sanitizeDay (storage ?w) ''2024-03-10'' ?day) =
                 [(''c1'', ''B''), (''c2'', ''A'')]"
      unfolding z by (metis day_record.select_convs(2) option.inject)
    then show False by simp
  qed
  then obtain m where "saved ?w' = saved ?w @
      [fst (normalizeAvailability (storage ?w) ''2024-03-10'' ?w),
       (fst (normalizeAvailability (storage ?w) ''2024-03-10'' ?w))
         \<lparr>assignmentsByDate :=
            AList.update ''2024-03-10''
              ((sanitizeDay (storage ?w) ''2024-03-10'' ?day)\<lparr>assignments := m\<rparr>)
              (assignmentsByDate (fst (normalizeAvailability (storage ?w) ''2024-03-10'' ?w)))\<rparr>]"
    using t by blast
  then have "length (saved ?w') = 2"
    by (simp add: emptyWorld_def)
  then show ?thesis using p1 p2 z by simp
qed

section \<open>Inheritance of availability\<close>

text \<open>
  Claim C6, as amended. When a record exists for a date and its
  \<^verbatim>\<open>availablePersonIds\<close> is empty, normalization replaces it by the
  \<^verbatim>\<open>availablePersonIds\<close> of the most recent earlier record, with the ids of deleted
  people dropped. The most recent earlier record is the one with the greatest date strictly
  below the date, whatever its availability: when that list is empty, or there is no
  earlier record, the availability stays empty and no other day is looked at.
\<close>

theorem C6_inherits_latest_earlier_record:
  assumes "map_of (assignmentsByDate d) date = Some day"
    and "availablePersonIds day = []"
  shows "map_of (assignmentsByDate (fst (normalizeAvailability d date w))) date =
           Some (day\<lparr>availablePersonIds :=
                   filter (knownPerson d)
                     (case getLastWorkday d date of
                        None \<Rightarrow> []
                      | Some lastDay \<Rightarrow> availablePersonIds lastDay)\<rparr>)
       \<and> (case getLastWorkday d date of
            None \<Rightarrow> \<not> (\<exists>y\<in>set (map fst (assignmentsByDate d)). y < date)
          | Some lastDay \<Rightarrow>
              (\<exists>x. x < date \<and> map_of (assignmentsByDate d) x = Some lastDay
                 \<and> (\<forall>y\<in>set (map fst (assignmentsByDate d)). y < date \<longrightarrow> y \<le> x)))"
proof -
  have a: "sanitizeDay d date day =
             day\<lparr>availablePersonIds := filter (knownPerson d) (inherited d date)\<rparr>"
    using assms(2) by (simp add: sanitizeDay_def Let_def)
  have b: "(case getLastWorkday d date of
              None \<Rightarrow> \<not> (\<exists>y\<in>set (map fst (assignmentsByDate d)). y < date)
            | Some lastDay \<Rightarrow>
                (\<exists>x. x < date \<and> map_of (assignmentsByDate d) x = Some lastDay
                   \<and> (\<forall>y\<in>set (map fst (assignmentsByDate d)). y < date \<longrightarrow> y \<le> x)))"
  proof (cases "getLastWorkday d date")
    case None
    then show ?thesis using getLastWorkday_None [of d date] by simp
  next
    case (Some l)
    then show ?thesis using getLastWorkday_Some [OF Some] by simp
  qed
  show ?thesis
    using normalize_existing(3) [OF assms(1), of w] a b by (simp add: inherited_eq)
qed

theorem C6_inherits_latest_earlier_record_witness:
  "map_of (assignmentsByDate storeInherit) ''2024-03-10'' =
     Some \<lparr>availablePersonIds = [], assignments = [], confirmed = False\<rparr>
   \<and> map_of (assignmentsByDate
         (fst (normalizeAvailability storeInherit ''2024-03-10'' (emptyWorld storeInherit)))) ''2024-03-10'' =
     Some \<lparr>availablePersonIds = [''A'', ''B''], assignments = [], confirmed = False\<rparr>"
proof -
  have h: "map_of (assignmentsByDate storeInherit) ''2024-03-10'' =
             Some \<lparr>availablePersonIds = [], assignments = [], confirmed = False\<rparr>"
    by (simp add: storeInherit_def)
  have g: "getLastWorkday storeInherit ''2024-03-10'' =
             Some \<lparr>availablePersonIds = [''A'', ''B''], assignments = [], confirmed = False\<rparr>"
    by (simp add: storeInherit_def getLastWorkday_def datesBefore_def)
  have k: "knownPerson storeInherit ''A''" "knownPerson storeInherit ''B''"
    by (simp_all add: storeInherit_def knownPerson_def fixture_defs)
  show ?thesis
    using h C6_inherits_latest_earlier_record [OF h, of "emptyWorld storeInherit"]
    by (simp add: g k)
qed

text \<open>
  Claim C6 as stated fails: with availability \<open>[A]\<close> on 2024-03-08 and none on
  2024-03-09 and 2024-03-10, normalizing 2024-03-10 leaves its availability empty,
  although the nearest earlier day with a non-empty availability has \<open>A\<close>, a current
  person.
\<close>

theorem C6_skips_nothing_counterexample:
  "map_of (assignmentsByDate storeGap) ''2024-03-08'' =
     Some \<lparr>availablePersonIds = [''A''], assignments = [], confirmed = False\<rparr>
   \<and> map_of (assignmentsByDate storeGap) ''2024-03-09'' =
     Some \<lparr>availablePersonIds = [], assignments = [], confirmed = False\<rparr>
   \<and> map_of (assignmentsByDate storeGap) ''2024-03-10'' =
     Some \<lparr>availablePersonIds = [], assignments = [], confirmed = False\<rparr>
   \<and> knownPerson storeGap ''A''
   \<and> map_of (assignmentsByDate
         (fst (normalizeAvailability storeGap ''2024-03-10'' (emptyWorld storeGap)))) ''2024-03-10'' =
     Some \<lparr>availablePersonIds = [], assignments = [], confirmed = False\<rparr>"
  by (simp add: storeGap_def normalize_defs fixture_defs update_conv')

section \<open>Idempotence of normalization\<close>

text \<open>
  Claim C7, as amended. In a document where every record's availability names current
  people only, normalizing a date a second time, right after the first, changes nothing:
  the document, the stored document and the date's record are the same as after the
  first call, and the date has a record.
\<close>

theorem C7_normalize_idempotent:
  assumes "availabilityRefsExist d"
  shows "fst (normalizeAvailability (fst (normalizeAvailability d date w)) date
                (snd (normalizeAvailability d date w))) =
           fst (normalizeAvailability d date w)
       \<and> storage (snd (normalizeAvailability (fst (normalizeAvailability d date w)) date
                (snd (normalizeAvailability d date w)))) =
           storage (snd (normalizeAvailability d date w))
       \<and> map_of (assignmentsByDate
             (fst (normalizeAvailability (fst (normalizeAvailability d date w)) date
                (snd (normalizeAvailability d date w))))) date =
           map_of (assignmentsByDate (fst (normalizeAvailability d date w))) date
       \<and> map_of (assignmentsByDate (fst (normalizeAvailability d date w))) date \<noteq> None"
proof -
  define d1 where "d1 = fst (normalizeAvailability d date w)"
  define w1 where "w1 = snd (normalizeAvailability d date w)"
  have people1: "knownPerson d1 = knownPerson d"
    by (simp add: d1_def normalizeAvailability_def Let_def split: option.splits)
  have "\<exists>r. map_of (assignmentsByDate d1) date = Some r \<and> sanitizeDay d1 date r = r"
  proof (cases "map_of (assignmentsByDate d) date")
    case None
    let ?c = "createDay d date"
    have d1: "d1 = d\<lparr>assignmentsByDate := assignmentsByDate d @ [(date, ?c)]\<rparr>"
      and l1: "map_of (assignmentsByDate d1) date = Some ?c"
      using normalize_missing [OF None, of w] by (simp_all add: d1_def)
    have inh: "inherited d1 date = inherited d date"
      by (simp add: d1 inherited_snoc)
    have "sanitizeDay d1 date ?c = ?c"
      using refs_inherited [OF assms, of date]
      by (simp add: sanitizeDay_def Let_def inh people1 createDay_def)
    then show ?thesis using l1 by blast
  next
    case (Some day)
    let ?s = "sanitizeDay d date day"
    have d1: "d1 = d\<lparr>assignmentsByDate := AList.update date ?s (assignmentsByDate d)\<rparr>"
      and l1: "map_of (assignmentsByDate d1) date = Some ?s"
      using normalize_existing [OF Some, of w] by (simp_all add: d1_def)
    have inh: "inherited d1 date = inherited d date"
      by (simp add: d1 inherited_update)
    have s: "?s = day\<lparr>availablePersonIds :=
                 (if availablePersonIds day = [] then inherited d date
                  else availablePersonIds day)\<rparr>"
      by (rule sanitizeDay_refs [OF assms Some])
    have "sanitizeDay d1 date ?s = ?s"
      using refs_lookup [OF assms Some] refs_inherited [OF assms, of date]
      by (simp add: s sanitizeDay_def [of d1] Let_def inh people1)
    then show ?thesis using l1 by blast
  qed
  then obtain r where r: "map_of (assignmentsByDate d1) date = Some r" "sanitizeDay d1 date r = r"
    by blast
  have d2: "fst (normalizeAvailability d1 date w1) = d1"
    using normalize_existing(1) [OF r(1), of w1] r(2) update_triv [OF r(1)] by simp
  have w1s: "storage w1 = d1"
    by (simp add: w1_def d1_def normalizeAvailability_def saveData_def Let_def
        split: option.splits)
  have w2: "storage (snd (normalizeAvailability d1 date w1)) = d1"
    using normalize_existing(2) [OF r(1), of w1] d2 by (simp add: saveData_def)
  show ?thesis
    using d2 w2 w1s r(1) unfolding d1_def [symmetric] w1_def [symmetric] by simp
qed

theorem C7_normalize_idempotent_witness:
  "availabilityRefsExist storeInherit
   \<and> map_of (assignmentsByDate
        (fst (normalizeAvailability
               (fst (normalizeAvailability storeInherit ''2024-03-10'' (emptyWorld storeInherit)))
               ''2024-03-10''
               (snd (normalizeAvailability storeInherit ''2024-03-10'' (emptyWorld storeInherit))))))
        ''2024-03-10'' =
     Some \<lparr>availablePersonIds = [''A'', ''B''], assignments = [], confirmed = False\<rparr>"
proof -
  have h: "availabilityRefsExist storeInherit"
    by (simp add: availabilityRefsExist_def storeInherit_def knownPerson_def fixture_defs)
  have n: "map_of (assignmentsByDate
             (fst (normalizeAvailability storeInherit ''2024-03-10'' (emptyWorld storeInherit))))
             ''2024-03-10'' =
           Some \<lparr>availablePersonIds = [''A'', ''B''], assignments = [], confirmed = False\<rparr>"
    by (simp add: storeInherit_def normalize_defs fixture_defs update_conv')
  show ?thesis
    using h n C7_normalize_idempotent [OF h, of "''2024-03-10''" "emptyWorld storeInherit"]
    by simp
qed

text \<open>
  Claim C7 as stated fails on a record that names a deleted person: the first call drops
  the dangling id \<open>X\<close> and leaves the availability empty, the second call finds it
  empty and inherits \<open>[A]\<close> from the day before.
\<close>

theorem C7_dangling_id_counterexample:
  "map_of (assignmentsByDate
       (fst (normalizeAvailability storeDangling ''2024-03-10'' (emptyWorld storeDangling)))) ''2024-03-10'' =
     Some \<lparr>availablePersonIds = [], assignments = [], confirmed = False\<rparr>
   \<and> map_of (assignmentsByDate
        (fst (normalizeAvailability
               (fst (normalizeAvailability storeDangling ''2024-03-10'' (emptyWorld storeDangling)))
               ''2024-03-10''
               (snd (normalizeAvailability storeDangling ''2024-03-10'' (emptyWorld storeDangling))))))
        ''2024-03-10'' =
     Some \<lparr>availablePersonIds = [''A''], assignments = [], confirmed = False\<rparr>"
  by (simp add: storeDangling_def normalize_defs fixture_defs update_conv')

section \<open>The retention sweep\<close>

text \<open>
  Across a change of the zone's offset the cutoff is not 30 times 24 hours before now. In
  the zone above, at 01:30 local time on the first of April, the cutoff is 01:30 local time
  on the second of March, which is 00:30 UTC: the record dated 2024-03-02 is before it and
  is removed, although 30 times 24 hours before now is still the first of March in UTC.
\<close>

lemma sweep_across_offset_change:
  "setDateBack springZone 30 lateMarch31 = 1709339400000
   \<and> lateMarch31 - 30 * msPerDay = 1709335800000
   \<and> isoDateValue ''2024-03-02'' = Some 1709337600000
   \<and> map_of (assignmentsByDate
         (storage (cleanupOldData isoDateValue springZone lateMarch31 (emptyWorld storeMarch))))
         ''2024-03-02'' = None
   \<and> map_of (assignmentsByDate
         (storage (cleanupOldData isoDateValue springZone lateMarch31 (emptyWorld storeMarch))))
         ''2024-03-03'' =
       Some \<lparr>availablePersonIds = [''A''], assignments = [], confirmed = True\<rparr>"
proof -
  have c: "setDateBack springZone 30 lateMarch31 = 1709339400000"
    by (simp add: setDateBack_eq springZone_def lateMarch31_def msPerDay_def)
  have v: "isoDateValue ''2024-03-02'' = Some 1709337600000"
    "isoDateValue ''2024-03-03'' = Some 1709424000000"
    by (simp_all add: date_defs msPerDay_def)
  show ?thesis
    by (simp add: sweep_lookup c v isOld_def)
       (simp add: lateMarch31_def msPerDay_def emptyWorld_def storeMarch_def)
qed




section \<open>Phase 2 under the validation precondition\<close>

text \<open>
  Claim C9, as amended. When today's record is not confirmed, the normalized availability
  list passes the handler's check \<^verbatim>\<open>available.length >= chores.length\<close> and no id
  occurs twice in it, the handler never ends with the hard-infeasibility warning; and
  whenever Phase 1 fails, Phase 2 returns with every chore assigned, that map is committed
  and the warning is the relaxation notice.
\<close>

theorem C9_phase2_never_fails:
  assumes ex: "map_of (assignmentsByDate (storage w)) today = Some r"
    and day: "day = sanitizeDay (storage w) today r"
    and dN: "dN = fst (normalizeAvailability (storage w) today w)"
    and nc: "\<not> confirmed day"
    and len: "length (chores dN) \<le> length (availablePersonIds day)"
    and dist: "distinct (availablePersonIds day)"
    and w': "w' = generateAssignments rnd today w"
  shows "warning w' \<noteq> msgImpossible
       \<and> (\<forall>p tk k1.
            phase1 rnd dN (datesBefore dN today) (availablePersonIds day) True (chores dN)
              [] {} (drawn w) = (p, tk, False, k1) \<longrightarrow>
            (\<exists>m tk2.
               phase2 rnd (availablePersonIds day) True (chores dN) [] {} k1 =
                 (m, tk2, True, k1 + length (chores dN))
               \<and> fst ` set m = ident ` set (chores dN)
               \<and> warning w' = msgRelaxed
               \<and> map_of (assignmentsByDate (storage w')) today =
                   Some (day\<lparr>assignments := m\<rparr>)))"
proof -
  let ?av = "availablePersonIds day"
  let ?w2 = "(saveData dN w)\<lparr>warning := []\<rparr>"
  have enough: "length (chores dN) \<le> card (set ?av)"
    using len distinct_card [OF dist] by simp
  have d2: "drawn ?w2 = drawn w" by (simp add: saveData_def)
  show ?thesis
  proof (cases "?av = []")
    case True
    then have ch: "chores dN = []" using len by simp
    have "w' = (saveData dN w)\<lparr>warning := msgNoPeople\<rparr>"
      using True nc by (simp add: w' generate_existing [OF ex] Let_def day [symmetric] dN [symmetric])
    then show ?thesis by (simp add: ch)
  next
    case False
    have g: "w' = allocate rnd today dN day ?w2"
      using False nc len
      by (simp add: w' generate_existing [OF ex] Let_def day [symmetric] dN [symmetric])
    show ?thesis
    proof (cases rule: phase1_cases [of rnd dN "datesBefore dN today" ?av True "chores dN" "[]" "{}" "drawn w"])
      case (ok m tk k)
      then have "phase1 rnd dN (datesBefore dN today) ?av (length (chores dN) \<le> length ?av)
                   (chores dN) [] {} (drawn ?w2) = (m, tk, True, k)"
        using len d2 by simp
      from allocate_phase1 [OF this] have "warning w' = []" by (simp add: g)
      then show ?thesis using ok by simp
    next
      case (abort p tk k1)
      have "length (chores dN) \<le> card (set ?av - {})" using enough by simp
      from phase2_completes [OF this, of rnd "[]" k1]
      obtain m tk2 where p2: "phase2 rnd ?av True (chores dN) [] {} k1 =
          (m, tk2, True, k1 + length (chores dN))"
        and ks: "fst ` set m = ident ` set (chores dN)"
        by auto
      have a1: "phase1 rnd dN (datesBefore dN today) ?av (length (chores dN) \<le> length ?av)
                   (chores dN) [] {} (drawn ?w2) = (p, tk, False, k1)"
        using abort len d2 by simp
      have a2: "phase2 rnd ?av (length (chores dN) \<le> length ?av) (chores dN) [] {} k1 =
                  (m, tk2, True, k1 + length (chores dN))"
        using p2 len by simp
      have "w' = commit dN today day m (?w2\<lparr>drawn := k1 + length (chores dN), warning := msgRelaxed\<rparr>)"
        using allocate_phase2 [OF a1 a2] g by simp
      then have "warning w' = msgRelaxed"
        and "map_of (assignmentsByDate (storage w')) today = Some (day\<lparr>assignments := m\<rparr>)"
        by (simp_all add: update_conv')
      then show ?thesis using abort p2 ks by simp
    qed
  qed
qed

theorem C9_phase2_never_fails_witness:
  "length (chores storeAbort) \<le> length [''A'', ''B''] \<and> distinct [''A'', ''B'']
   \<and> phase1 zeroDraws storeAbort (datesBefore storeAbort ''2024-03-10'') [''A'', ''B''] True
        [Dishes, Trash] [] {} 0 = ([(''c1'', ''A'')], {''A''}, False, 1)
   \<and> warning (generateAssignments zeroDraws ''2024-03-10'' (emptyWorld storeAbort)) = msgRelaxed
   \<and> warning (generateAssignments zeroDraws ''2024-03-10'' (emptyWorld storeAbort)) \<noteq> msgImpossible"
proof -
  let ?w = "emptyWorld storeAbort"
  let ?day = "\<lparr>availablePersonIds = [''A'', ''B''], assignments = [], confirmed = False\<rparr>"
  have ex: "map_of (assignmentsByDate (storage ?w)) ''2024-03-10'' = Some ?day"
    by (simp add: emptyWorld_def storeAbort_def)
  have san: "?day = sanitizeDay (storage ?w) ''2024-03-10'' ?day"
    by (simp add: emptyWorld_def storeAbort_def sanitizeDay_def knownPerson_def personA_def
        personB_def)
  have dN: "storeAbort = fst (normalizeAvailability (storage ?w) ''2024-03-10'' ?w)"
    using ex san [symmetric]
    by (simp add: normalizeAvailability_def Let_def) (simp add: emptyWorld_def storeAbort_def)
  have ch: "chores storeAbort = [Dishes, Trash]" by (simp add: storeAbort_def)
  have en: "length (chores storeAbort) \<le> length (availablePersonIds ?day)"
    and di: "distinct (availablePersonIds ?day)"
    by (simp_all add: ch)
  have p1: "phase1 zeroDraws storeAbort (datesBefore storeAbort ''2024-03-10'')
              (availablePersonIds ?day) True (chores storeAbort) [] {} (drawn ?w) =
            ([(''c1'', ''A'')], {''A''}, False, 1)"
    by (simp add: storeAbort_def datesBefore_def engine_defs emptyWorld_def zeroDraws_def
        Dishes_def Trash_def)
  have nc: "\<not> confirmed ?day" by simp
  from C9_phase2_never_fails [OF ex san dN nc en di refl, of zeroDraws] p1
  have "warning (generateAssignments zeroDraws ''2024-03-10'' ?w) \<noteq> msgImpossible"
    and "warning (generateAssignments zeroDraws ''2024-03-10'' ?w) = msgRelaxed"
    by blast+
  then show ?thesis using p1 en by (simp add: ch emptyWorld_def)
qed

text \<open>
  Claim C9 as stated fails on an availability list that repeats an id. The list
  \<open>[A, A]\<close> passes the handler's check against the two chores; Phase 1 fails, Phase 2
  gives Dishes to \<open>A\<close>, finds no candidate for Trash, and the handler ends with the
  hard-infeasibility warning.
\<close>

theorem C9_repeated_id_counterexample:
  "map_of (assignmentsByDate (storage (emptyWorld storeDup))) ''2024-03-10'' =
     Some \<lparr>availablePersonIds = [''A'', ''A''], assignments = [], confirmed = False\<rparr>
   \<and> sanitizeDay storeDup ''2024-03-10''
        \<lparr>availablePersonIds = [''A'', ''A''], assignments = [], confirmed = False\<rparr> =
      \<lparr>availablePersonIds = [''A'', ''A''], assignments = [], confirmed = False\<rparr>
   \<and> length (chores storeDup) \<le> length [''A'', ''A'']
   \<and> phase1 zeroDraws storeDup (datesBefore storeDup ''2024-03-10'') [''A'', ''A''] True
        [Dishes, Trash] [] {} 0 = ([], {}, False, 0)
   \<and> phase2 zeroDraws [''A'', ''A''] True [Dishes, Trash] [] {} 0 =
        ([(''c1'', ''A'')], {''A''}, False, 1)
   \<and> warning (generateAssignments zeroDraws ''2024-03-10'' (emptyWorld storeDup)) =
        msgImpossible"
  by (simp add: generateAssignments_def loadData_def emptyWorld_def storeDup_def normalize_defs
      engine_defs datesBefore_def zeroDraws_def Dishes_def Trash_def personA_def update_conv')

section \<open>Generation without a record for today\<close>

text \<open>
  Claim C10. In src/script.js, when no record exists for today at the moment
  \<^verbatim>\<open>generateAssignments\<close> is called, the call creates today's record through
  normalization (empty assignments, not confirmed, availability inherited) and saves it,
  and then returns: nothing is assigned, no draw is made, the warning text and the alerts
  are as before. The variable \<^verbatim>\<open>day\<close> was read before normalization created the
  record.
\<close>

theorem C10_missing_record:
  assumes "map_of (assignmentsByDate (storage w)) today = None"
  shows "storage (generateAssignments rnd today w) =
           (storage w)\<lparr>assignmentsByDate :=
              assignmentsByDate (storage w) @
                [(today, \<lparr>availablePersonIds = inherited (storage w) today,
                          assignments = [], confirmed = False\<rparr>)]\<rparr>
       \<and> map_of (assignmentsByDate (storage (generateAssignments rnd today w))) today =
           Some \<lparr>availablePersonIds = inherited (storage w) today,
                 assignments = [], confirmed = False\<rparr>
       \<and> saved (generateAssignments rnd today w) =
           saved w @ [storage (generateAssignments rnd today w)]
       \<and> warning (generateAssignments rnd today w) = warning w
       \<and> alerts (generateAssignments rnd today w) = alerts w
       \<and> drawn (generateAssignments rnd today w) = drawn w"
  using assms
  by (simp add: generateAssignments_def loadData_def normalizeAvailability_def saveData_def
      createDay_def Let_def map_add_def)

theorem C10_missing_record_witness:
  "map_of (assignmentsByDate (storage (emptyWorld storeNoToday))) ''2024-03-10'' = None
   \<and> map_of (assignmentsByDate
         (storage (generateAssignments zeroDraws ''2024-03-10'' (emptyWorld storeNoToday))))
         ''2024-03-10'' =
       Some \<lparr>availablePersonIds = [''A'', ''B''], assignments = [], confirmed = False\<rparr>
   \<and> warning (generateAssignments zeroDraws ''2024-03-10'' (emptyWorld storeNoToday)) = []
   \<and> alerts (generateAssignments zeroDraws ''2024-03-10'' (emptyWorld storeNoToday)) = []
   \<and> drawn (generateAssignments zeroDraws ''2024-03-10'' (emptyWorld storeNoToday)) = 0"
proof -
  have h: "map_of (assignmentsByDate (storage (emptyWorld storeNoToday))) ''2024-03-10'' = None"
    by (simp add: emptyWorld_def storeNoToday_def)
  have i: "inherited (storage (emptyWorld storeNoToday)) ''2024-03-10'' = [''A'', ''B'']"
    by (simp add: emptyWorld_def storeNoToday_def inherited_def getLastWorkday_def
        datesBefore_def)
  show ?thesis
    using h i C10_missing_record [OF h, of zeroDraws]
    by (simp add: emptyWorld_def map_add_def)
qed

end
